theory Spec2Isabelle
  imports Main "HOL-Library.Char_ord" "HOL-Library.List_Lexorder"
begin

section \<open>The transformation-synthesis pass (MakeTransformations.ts)\<close>

text \<open>
  A shallow embedding of \<^verbatim>\<open>src/quicktype-core/MakeTransformations.ts\<close>: the four
  replacement strategies \<^verbatim>\<open>replaceUnion\<close>, \<^verbatim>\<open>replaceArray\<close>, \<^verbatim>\<open>replaceEnum\<close>,
  \<^verbatim>\<open>replaceIntegerString\<close>, the helper \<^verbatim>\<open>makeEnumTransformer\<close> and the dispatcher
  \<^verbatim>\<open>replace\<close> of \<^verbatim>\<open>makeTransformations\<close>.

  The file imports its collaborators (the type graph, the rewrite builder, the
  transformer classes, the attribute algebra) from other modules of the repository,
  \<^verbatim>\<open>Type.ts\<close>, \<^verbatim>\<open>GraphRewriting.ts\<close>, \<^verbatim>\<open>Transformers.ts\<close> and
  \<^verbatim>\<open>TypeAttributes.ts\<close>, which are outside this development. They enter the model
  as follows.
  \<^item> Transformer classes are constructors of a datatype, with the arguments in the order
    the source passes them (the \<^verbatim>\<open>graph\<close> argument, the same object in every call,
    is left out).
  \<^item> Type attributes are a type parameter \<open>'a\<close>; the operations on them are fields of
    a record of collaborators.
  \<^item> The rewrite builder is a log of the calls made on it. What a call returns is
    decided by the graph engine, which is a parameter: a function from the log so far
    and the call to the handle returned. Every deterministic builder is an instance.
  \<^item> \<^verbatim>\<open>assert\<close>, \<^verbatim>\<open>defined\<close> and \<^verbatim>\<open>panic\<close> throw; the functions that can throw return
    a sum, \<open>Inl\<close> carrying the error.
  \<^item> Debug printing (\<^verbatim>\<open>console.log\<close>) is not modelled; the debug flags are kept as
    arguments.
  \<^item> \<^verbatim>\<open>Transformation.reverse\<close> is computed in \<^verbatim>\<open>Transformers.ts\<close>; this file only
    builds the forward transformer, and no transformer is run by the pass.
\<close>

subsection \<open>Types of the input graph\<close>

type_synonym TypeRef = nat

text \<open>A \<^verbatim>\<open>TypeKind\<close> is a string in the source (\<^verbatim>\<open>"string"\<close>, \<^verbatim>\<open>"class"\<close>, ...).\<close>

type_synonym TypeKind = string

text \<open>
  The classes of \<^verbatim>\<open>Type\<close> the pass tests with \<^verbatim>\<open>instanceof\<close>, and the two object
  classes it looks up by kind. Every type carries its own handle and its attributes; a
  set (\<^verbatim>\<open>ReadonlySet\<close>) is the list of its elements in iteration order. The pass
  reads a type one level deep (the kind, the attributes, the cases, the members) and
  hands everything below to the builder.
\<close>

datatype 'a Type =
    PrimitiveType TypeRef TypeKind 'a
  | ArrayType TypeRef 'a "'a Type"
  | EnumType TypeRef 'a "string list"
  | UnionType TypeRef 'a "'a Type list"
  | ClassType TypeRef 'a
  | MapType TypeRef 'a

fun kind :: "'a Type \<Rightarrow> TypeKind" where
  "kind (PrimitiveType r k a) = k"
| "kind (ArrayType r a t) = ''array''"
| "kind (EnumType r a cs) = ''enum''"
| "kind (UnionType r a ms) = ''union''"
| "kind (ClassType r a) = ''class''"
| "kind (MapType r a) = ''map''"

fun typeRef :: "'a Type \<Rightarrow> TypeRef" where
  "typeRef (PrimitiveType r k a) = r"
| "typeRef (ArrayType r a t) = r"
| "typeRef (EnumType r a cs) = r"
| "typeRef (UnionType r a ms) = r"
| "typeRef (ClassType r a) = r"
| "typeRef (MapType r a) = r"

fun getAttributes :: "'a Type \<Rightarrow> 'a" where
  "getAttributes (PrimitiveType r k a) = a"
| "getAttributes (ArrayType r a t) = a"
| "getAttributes (EnumType r a cs) = a"
| "getAttributes (UnionType r a ms) = a"
| "getAttributes (ClassType r a) = a"
| "getAttributes (MapType r a) = a"

fun isEnumType :: "'a Type \<Rightarrow> bool" where
  "isEnumType (EnumType r a cs) = True"
| "isEnumType t = False"

fun isUnionType :: "'a Type \<Rightarrow> bool" where
  "isUnionType (UnionType r a ms) = True"
| "isUnionType t = False"

fun isArrayType :: "'a Type \<Rightarrow> bool" where
  "isArrayType (ArrayType r a t) = True"
| "isArrayType t = False"

fun cases_of :: "'a Type \<Rightarrow> string list" where
  "cases_of (EnumType r a cs) = cs"
| "cases_of t = []"

fun members :: "'a Type \<Rightarrow> 'a Type list" where
  "members (UnionType r a ms) = ms"
| "members t = []"

datatype StringTypes = StringTypes_unrestricted | StringTypes_restricted "string list"

subsection \<open>Transformers\<close>

datatype Transformer =
    DecodingTransformer TypeRef "Transformer option"
  | ParseStringTransformer TypeRef "Transformer option"
  | StringMatchTransformer TypeRef Transformer string
  | StringProducerTransformer TypeRef "Transformer option" string
  | ChoiceTransformer TypeRef "Transformer list"
  | UnionInstantiationTransformer TypeRef
  | DecodingChoiceTransformer TypeRef
      "Transformer option" "Transformer option" "Transformer option" "Transformer option"
      "Transformer option" "Transformer option" "Transformer option"
  | ArrayDecodingTransformer TypeRef "Transformer option" TypeRef Transformer

datatype Transformation = Transformation TypeRef Transformer

subsection \<open>Errors\<close>

datatype error =
    AssertionFailed string
  | DefinedValueExpected
  | Panic string

definition defined :: "'x option \<Rightarrow> error + 'x" where
  "defined v = (case v of None \<Rightarrow> Inl DefinedValueExpected | Some x \<Rightarrow> Inr x)"

definition iterableFirst :: "'x list \<Rightarrow> 'x option" where
  "iterableFirst xs = (case xs of [] \<Rightarrow> None | x # rest \<Rightarrow> Some x)"

subsection \<open>The rewrite builder and the other collaborators\<close>

datatype 'a BuilderCall =
    ReconstituteType "'a Type"
  | ReconstituteTypeAttributes 'a
  | GetPrimitiveType TypeKind "'a option" "TypeRef option"
  | GetStringType 'a StringTypes "TypeRef option"
  | GetArrayType 'a TypeRef "TypeRef option"
  | GetUnionType 'a "TypeRef list"
  | GetEnumType 'a "string list"
  | SetLostTypeAttributes

type_synonym 'a GraphRewriteBuilder = "'a BuilderCall list"

text \<open>
  The imported operations whose code is outside this development: the two kind tables
  of \<^verbatim>\<open>Type.ts\<close>, the attribute operations of \<^verbatim>\<open>TypeAttributes.ts\<close> and
  \<^verbatim>\<open>Transformers.ts\<close>, and the answers of the graph engine behind the builder
  (\<open>typeRefFor log call\<close> is the handle the builder returns for \<open>call\<close> after the
  calls of \<open>log\<close>; \<open>attributesFor log a\<close> is what \<^verbatim>\<open>reconstituteTypeAttributes\<close>
  returns for \<open>a\<close>).
\<close>

record 'a Collaborators =
  isPrimitiveStringTypeKind :: "TypeKind \<Rightarrow> bool"
  targetTypeKindForTransformedStringTypeKind :: "TypeKind \<Rightarrow> TypeKind option"
  emptyTypeAttributes :: 'a
  combineTypeAttributes :: "string \<Rightarrow> 'a \<Rightarrow> 'a \<Rightarrow> 'a"
  makeAttributes :: "Transformation \<Rightarrow> 'a"
  typeRefFor :: "'a BuilderCall list \<Rightarrow> 'a BuilderCall \<Rightarrow> TypeRef"
  attributesFor :: "'a BuilderCall list \<Rightarrow> 'a \<Rightarrow> 'a"

definition reconstituteType ::
  "'a Collaborators \<Rightarrow> 'a Type \<Rightarrow> 'a GraphRewriteBuilder \<Rightarrow> TypeRef \<times> 'a GraphRewriteBuilder" where
  "reconstituteType env t builder =
     (typeRefFor env builder (ReconstituteType t), builder @ [ReconstituteType t])"

definition reconstituteTypeAttributes ::
  "'a Collaborators \<Rightarrow> 'a \<Rightarrow> 'a GraphRewriteBuilder \<Rightarrow> 'a \<times> 'a GraphRewriteBuilder" where
  "reconstituteTypeAttributes env a builder =
     (attributesFor env builder a, builder @ [ReconstituteTypeAttributes a])"

definition getPrimitiveType ::
  "'a Collaborators \<Rightarrow> TypeKind \<Rightarrow> 'a option \<Rightarrow> TypeRef option \<Rightarrow> 'a GraphRewriteBuilder
     \<Rightarrow> TypeRef \<times> 'a GraphRewriteBuilder" where
  "getPrimitiveType env k a forwardingRef builder =
     (typeRefFor env builder (GetPrimitiveType k a forwardingRef),
      builder @ [GetPrimitiveType k a forwardingRef])"

definition getStringType ::
  "'a Collaborators \<Rightarrow> 'a \<Rightarrow> StringTypes \<Rightarrow> TypeRef option \<Rightarrow> 'a GraphRewriteBuilder
     \<Rightarrow> TypeRef \<times> 'a GraphRewriteBuilder" where
  "getStringType env a st forwardingRef builder =
     (typeRefFor env builder (GetStringType a st forwardingRef),
      builder @ [GetStringType a st forwardingRef])"

definition getArrayType ::
  "'a Collaborators \<Rightarrow> 'a \<Rightarrow> TypeRef \<Rightarrow> TypeRef option \<Rightarrow> 'a GraphRewriteBuilder
     \<Rightarrow> TypeRef \<times> 'a GraphRewriteBuilder" where
  "getArrayType env a items forwardingRef builder =
     (typeRefFor env builder (GetArrayType a items forwardingRef),
      builder @ [GetArrayType a items forwardingRef])"

definition getUnionType ::
  "'a Collaborators \<Rightarrow> 'a \<Rightarrow> TypeRef list \<Rightarrow> 'a GraphRewriteBuilder
     \<Rightarrow> TypeRef \<times> 'a GraphRewriteBuilder" where
  "getUnionType env a ms builder =
     (typeRefFor env builder (GetUnionType a ms), builder @ [GetUnionType a ms])"

definition getEnumType ::
  "'a Collaborators \<Rightarrow> 'a \<Rightarrow> string list \<Rightarrow> 'a GraphRewriteBuilder
     \<Rightarrow> TypeRef \<times> 'a GraphRewriteBuilder" where
  "getEnumType env a cs builder =
     (typeRefFor env builder (GetEnumType a cs), builder @ [GetEnumType a cs])"

definition setLostTypeAttributes :: "'a GraphRewriteBuilder \<Rightarrow> 'a GraphRewriteBuilder" where
  "setLostTypeAttributes builder = builder @ [SetLostTypeAttributes]"

text \<open>
  Modelled from the spec: \<^verbatim>\<open>UnionType.findMember\<close> of \<^verbatim>\<open>Type.ts\<close>, whose code is
  outside this development. The spec's union is a mapping from kind to member, with at
  most one member of a kind; the lookup returns the member of the kind, if there is one.
\<close>

definition findMember :: "'a Type \<Rightarrow> TypeKind \<Rightarrow> 'a Type option" where
  "findMember unionType k = find (\<lambda>t. kind t = k) (members unionType)"

text \<open>
  Modelled from the spec: \<^verbatim>\<open>UnionType.stringTypeMembers\<close> of \<^verbatim>\<open>Type.ts\<close>, whose code
  is outside this development. The spec's string-like members are the plain string, the
  enumeration and the transformed-string primitives: the members of a primitive string
  kind and the enumerations, in the iteration order of the members.
\<close>

definition stringTypeMembers :: "'a Collaborators \<Rightarrow> 'a Type \<Rightarrow> 'a Type list" where
  "stringTypeMembers env unionType =
     filter (\<lambda>t. isPrimitiveStringTypeKind env (kind t) \<or> kind t = ''enum'') (members unionType)"

text \<open>
  A JavaScript \<^verbatim>\<open>Map\<close> keeps its keys in the order of their first insertion, and
  \<^verbatim>\<open>set\<close> on a key already there replaces the value in place; a \<^verbatim>\<open>Set\<close> built from
  an iterable keeps the first occurrence of every element.
\<close>

fun mapSet :: "('k \<times> 'v) list \<Rightarrow> 'k \<Rightarrow> 'v \<Rightarrow> ('k \<times> 'v) list" where
  "mapSet [] k v = [(k, v)]"
| "mapSet ((k', v') # rest) k v = (if k' = k then (k, v) # rest else (k', v') # mapSet rest k v)"

fun setAddAll :: "'x list \<Rightarrow> 'x list \<Rightarrow> 'x list" where
  "setAddAll s [] = s"
| "setAddAll s (x # xs) = setAddAll (if x \<in> set s then s else s @ [x]) xs"

definition newSet :: "'x list \<Rightarrow> 'x list" where
  "newSet xs = setAddAll [] xs"

subsection \<open>transformationAttributes and makeEnumTransformer\<close>

definition transformationAttributes ::
  "'a Collaborators \<Rightarrow> TypeRef \<Rightarrow> Transformer \<Rightarrow> bool \<Rightarrow> 'a" where
  "transformationAttributes env reconstitutedTargetType transformer debugPrintTransformations =
     makeAttributes env (Transformation reconstitutedTargetType transformer)"

definition makeEnumTransformer ::
  "'a Type \<Rightarrow> TypeRef \<Rightarrow> Transformer option \<Rightarrow> Transformer" where
  "makeEnumTransformer enumType stringType continuation =
     (let sortedCases = sort (cases_of enumType);
          caseTransformers =
            map (\<lambda>c. StringMatchTransformer stringType
                        (StringProducerTransformer stringType continuation c) c)
                sortedCases
      in ChoiceTransformer stringType caseTransformers)"

subsection \<open>replaceUnion\<close>

definition andThen :: "error + 'x \<Rightarrow> ('x \<Rightarrow> error + 'y) \<Rightarrow> error + 'y" where
  "andThen m f = (case m of Inl e \<Rightarrow> Inl e | Inr x \<Rightarrow> f x)"

definition assert :: "bool \<Rightarrow> string \<Rightarrow> error + unit" where
  "assert c message = (if c then Inr () else Inl (AssertionFailed message))"

text \<open>
  The closure \<^verbatim>\<open>reconstituteMember\<close> reads \<^verbatim>\<open>union\<close> and \<^verbatim>\<open>builder\<close> and assigns
  \<^verbatim>\<open>additionalAttributes\<close>: the state it threads is the pair of the attributes
  accumulated so far and the builder.
\<close>

definition reconstituteMember ::
  "'a Collaborators \<Rightarrow> 'a Type \<Rightarrow> 'a Type \<Rightarrow> 'a \<times> 'a GraphRewriteBuilder
     \<Rightarrow> TypeRef \<times> ('a \<times> 'a GraphRewriteBuilder)" where
  "reconstituteMember env unionType t st =
     (case st of (additionalAttributes, builder) \<Rightarrow>
        if isPrimitiveStringTypeKind env (kind t) then
          (case targetTypeKindForTransformedStringTypeKind env (kind t) of
             Some targetTypeKind \<Rightarrow>
               (let targetTypeMember = findMember unionType targetTypeKind;
                    additionalAttributes' =
                      combineTypeAttributes env ''union'' additionalAttributes (getAttributes t)
                in case targetTypeMember of
                     Some m \<Rightarrow>
                       (case reconstituteType env m builder of
                          (r, builder') \<Rightarrow> (r, (additionalAttributes', builder')))
                   | None \<Rightarrow>
                       (case getPrimitiveType env targetTypeKind None None builder of
                          (r, builder') \<Rightarrow> (r, (additionalAttributes', builder'))))
           | None \<Rightarrow>
               (case reconstituteType env t builder of
                  (r, builder') \<Rightarrow> (r, (additionalAttributes, builder'))))
        else
          (case reconstituteType env t builder of
             (r, builder') \<Rightarrow> (r, (additionalAttributes, builder'))))"

text \<open>
  \<^verbatim>\<open>mapMapEntries(union.members.entries(), m => [m.kind, reconstituteMember(m)])\<close>:
  the members in iteration order, each entered into the map under its kind.
\<close>

fun reconstituteMembers ::
  "'a Collaborators \<Rightarrow> 'a Type \<Rightarrow> 'a Type list \<Rightarrow> (TypeKind \<times> TypeRef) list
     \<Rightarrow> 'a \<times> 'a GraphRewriteBuilder
     \<Rightarrow> (TypeKind \<times> TypeRef) list \<times> ('a \<times> 'a GraphRewriteBuilder)" where
  "reconstituteMembers env unionType [] byKind st = (byKind, st)"
| "reconstituteMembers env unionType (m # ms) byKind st =
     (case reconstituteMember env unionType m st of
        (r, st') \<Rightarrow> reconstituteMembers env unionType ms (mapSet byKind (kind m) r) st')"

definition memberForKind :: "(TypeKind \<times> TypeRef) list \<Rightarrow> TypeKind \<Rightarrow> error + TypeRef" where
  "memberForKind reconstitutedMembersByKind k = defined (map_of reconstitutedMembersByKind k)"

definition consumer :: "bool \<Rightarrow> TypeRef \<Rightarrow> Transformer option" where
  "consumer haveUnion memberTypeRef =
     (if \<not> haveUnion then None else Some (UnionInstantiationTransformer memberTypeRef))"

definition transformerForKind ::
  "'a Type \<Rightarrow> (TypeKind \<times> TypeRef) list \<Rightarrow> bool \<Rightarrow> TypeKind \<Rightarrow> error + Transformer option" where
  "transformerForKind unionType reconstitutedMembersByKind haveUnion k =
     (case findMember unionType k of
        None \<Rightarrow> Inr None
      | Some member \<Rightarrow>
          andThen (memberForKind reconstitutedMembersByKind k) (\<lambda>memberTypeRef.
            Inr (Some (DecodingTransformer memberTypeRef (consumer haveUnion memberTypeRef)))))"

text \<open>
  The closure \<^verbatim>\<open>getStringType\<close> of \<^verbatim>\<open>replaceUnion\<close> asks the builder once and keeps
  the answer in \<^verbatim>\<open>maybeStringType\<close>; its state is that variable and the builder.
\<close>

definition replaceUnion_getStringType ::
  "'a Collaborators \<Rightarrow> TypeRef option \<times> 'a GraphRewriteBuilder
     \<Rightarrow> TypeRef \<times> (TypeRef option \<times> 'a GraphRewriteBuilder)" where
  "replaceUnion_getStringType env st =
     (case st of (maybeStringType, builder) \<Rightarrow>
        (case maybeStringType of
           None \<Rightarrow>
             (case getStringType env (emptyTypeAttributes env) StringTypes_unrestricted None builder of
                (s, builder') \<Rightarrow> (s, (Some s, builder')))
         | Some s \<Rightarrow> (s, (Some s, builder))))"

definition transformerForStringType ::
  "'a Collaborators \<Rightarrow> (TypeKind \<times> TypeRef) list \<Rightarrow> bool \<Rightarrow> 'a Type
     \<Rightarrow> TypeRef option \<times> 'a GraphRewriteBuilder
     \<Rightarrow> error + (Transformer option \<times> (TypeRef option \<times> 'a GraphRewriteBuilder))" where
  "transformerForStringType env reconstitutedMembersByKind haveUnion t st =
     andThen (memberForKind reconstitutedMembersByKind (kind t)) (\<lambda>memberRef.
       if kind t = ''string'' then Inr (consumer haveUnion memberRef, st)
       else if isEnumType t then
         (case replaceUnion_getStringType env st of
            (s, st') \<Rightarrow> Inr (Some (makeEnumTransformer t s (consumer haveUnion memberRef)), st'))
       else
         (case replaceUnion_getStringType env st of
            (s, st') \<Rightarrow> Inr (Some (ParseStringTransformer s (consumer haveUnion memberRef)), st')))"

text \<open>\<^verbatim>\<open>Array.from(stringTypes).map(t => defined(transformerForStringType(t)))\<close>\<close>

fun transformersForStringTypes ::
  "'a Collaborators \<Rightarrow> (TypeKind \<times> TypeRef) list \<Rightarrow> bool \<Rightarrow> 'a Type list
     \<Rightarrow> TypeRef option \<times> 'a GraphRewriteBuilder
     \<Rightarrow> error + (Transformer list \<times> (TypeRef option \<times> 'a GraphRewriteBuilder))" where
  "transformersForStringTypes env byKind haveUnion [] st = Inr ([], st)"
| "transformersForStringTypes env byKind haveUnion (t # ts) st =
     andThen (transformerForStringType env byKind haveUnion t st) (\<lambda>(x, st').
       andThen (defined x) (\<lambda>tr.
         andThen (transformersForStringTypes env byKind haveUnion ts st') (\<lambda>(trs, st'').
           Inr (tr # trs, st''))))"

text \<open>The local \<^verbatim>\<open>transformerForString\<close> (lines 147 to 164).\<close>

definition transformerForString ::
  "'a Collaborators \<Rightarrow> 'a Type \<Rightarrow> (TypeKind \<times> TypeRef) list \<Rightarrow> bool
     \<Rightarrow> TypeRef option \<times> 'a GraphRewriteBuilder
     \<Rightarrow> error + (Transformer option \<times> (TypeRef option \<times> 'a GraphRewriteBuilder))" where
  "transformerForString env unionType reconstitutedMembersByKind haveUnion st =
     (let stringTypes = stringTypeMembers env unionType in
      if length stringTypes = 0 then Inr (None, st)
      else if length stringTypes = 1 then
        andThen (defined (iterableFirst stringTypes)) (\<lambda>t.
          andThen (transformerForKind unionType reconstitutedMembersByKind haveUnion (kind t)) (\<lambda>tr.
            Inr (tr, st)))
      else
        (case replaceUnion_getStringType env st of (s1, st1) \<Rightarrow>
           (case replaceUnion_getStringType env st1 of (s2, st2) \<Rightarrow>
              andThen (transformersForStringTypes env reconstitutedMembersByKind haveUnion
                         stringTypes st2) (\<lambda>(trs, st3).
                Inr (Some (DecodingTransformer s1 (Some (ChoiceTransformer s2 trs))), st3)))))"

text \<open>
  Lines 75 to 184 of \<^verbatim>\<open>replaceUnion\<close>: the locals \<^verbatim>\<open>reconstitutedTargetType\<close>,
  \<^verbatim>\<open>transformer\<close> and \<^verbatim>\<open>additionalAttributes\<close>, and the builder after the calls made
  so far.
\<close>

definition replaceUnion_transformer ::
  "'a Collaborators \<Rightarrow> 'a Type \<Rightarrow> 'a GraphRewriteBuilder
     \<Rightarrow> error + (TypeRef \<times> Transformer \<times> 'a \<times> 'a GraphRewriteBuilder)" where
  "replaceUnion_transformer env unionType builder =
     andThen (assert (length (members unionType) > 0) ''We can't have empty unions'') (\<lambda>_.
       case reconstituteMembers env unionType (members unionType) []
              (emptyTypeAttributes env, builder) of
         (reconstitutedMembersByKind, (additionalAttributes, builder1)) \<Rightarrow>
       let reconstitutedMemberSet = newSet (map snd reconstitutedMembersByKind);
           haveUnion = (length reconstitutedMemberSet > 1);
           builder2 = (if \<not> haveUnion then setLostTypeAttributes builder1 else builder1)
       in
       andThen (if haveUnion
                then Inr (getUnionType env (getAttributes unionType) reconstitutedMemberSet builder2)
                else andThen (defined (iterableFirst reconstitutedMemberSet)) (\<lambda>r. Inr (r, builder2)))
         (\<lambda>(reconstitutedTargetType, builder3).
       andThen (transformerForString env unionType reconstitutedMembersByKind haveUnion
                  (None, builder3))
         (\<lambda>(trString, (maybeStringType, builder4)).
       andThen (transformerForKind unionType reconstitutedMembersByKind haveUnion ''class'')
         (\<lambda>transformerForClass.
       andThen (transformerForKind unionType reconstitutedMembersByKind haveUnion ''map'')
         (\<lambda>transformerForMap.
       andThen (assert (transformerForClass = None \<or> transformerForMap = None)
                  ''Can't have both class and map in a transformed union'') (\<lambda>_.
       let transformerForObject =
             (if transformerForClass \<noteq> None then transformerForClass else transformerForMap)
       in
       case getPrimitiveType env ''any'' None None builder4 of (anyType, builder5) \<Rightarrow>
       andThen (transformerForKind unionType reconstitutedMembersByKind haveUnion ''null'')
         (\<lambda>trNull.
       andThen (transformerForKind unionType reconstitutedMembersByKind haveUnion ''integer'')
         (\<lambda>trInteger.
       andThen (transformerForKind unionType reconstitutedMembersByKind haveUnion ''double'')
         (\<lambda>trDouble.
       andThen (transformerForKind unionType reconstitutedMembersByKind haveUnion ''bool'')
         (\<lambda>trBool.
       andThen (transformerForKind unionType reconstitutedMembersByKind haveUnion ''array'')
         (\<lambda>trArray.
       Inr (reconstitutedTargetType,
            DecodingChoiceTransformer anyType trNull trInteger trDouble trBool trString trArray
              transformerForObject,
            additionalAttributes, builder5))))))))))))"

definition replaceUnion ::
  "'a Collaborators \<Rightarrow> 'a Type \<Rightarrow> 'a GraphRewriteBuilder \<Rightarrow> TypeRef \<Rightarrow> bool
     \<Rightarrow> error + (TypeRef \<times> 'a GraphRewriteBuilder)" where
  "replaceUnion env unionType builder forwardingRef debug =
     andThen (replaceUnion_transformer env unionType builder)
       (\<lambda>(reconstitutedTargetType, transformer, additionalAttributes, builder5).
          let attributes = transformationAttributes env reconstitutedTargetType transformer debug
          in Inr (getPrimitiveType env ''any''
                    (Some (combineTypeAttributes env ''union'' attributes additionalAttributes))
                    (Some forwardingRef) builder5))"

subsection \<open>replaceArray, replaceEnum, replaceIntegerString\<close>

fun replaceArray ::
  "'a Collaborators \<Rightarrow> 'a Type \<Rightarrow> 'a GraphRewriteBuilder \<Rightarrow> TypeRef \<Rightarrow> bool
     \<Rightarrow> TypeRef \<times> 'a GraphRewriteBuilder" where
  "replaceArray env (ArrayType ref attrs items) builder forwardingRef debug =
     (case getPrimitiveType env ''any'' None None builder of (anyType, builder1) \<Rightarrow>
      case getArrayType env (emptyTypeAttributes env) anyType None builder1 of
        (anyArrayType, builder2) \<Rightarrow>
      case reconstituteType env items builder2 of (reconstitutedItems, builder3) \<Rightarrow>
      let transformer = ArrayDecodingTransformer anyArrayType None reconstitutedItems
                          (DecodingTransformer anyType None)
      in
      case reconstituteTypeAttributes env attrs builder3 of (attrs', builder4) \<Rightarrow>
      case getArrayType env attrs' reconstitutedItems None builder4 of
        (reconstitutedArray, builder5) \<Rightarrow>
      let attributes = transformationAttributes env reconstitutedArray transformer debug
      in getArrayType env attributes anyType (Some forwardingRef) builder5)"

definition replaceEnum ::
  "'a Collaborators \<Rightarrow> 'a Type \<Rightarrow> 'a GraphRewriteBuilder \<Rightarrow> TypeRef \<Rightarrow> bool
     \<Rightarrow> TypeRef \<times> 'a GraphRewriteBuilder" where
  "replaceEnum env enumType builder forwardingRef debug =
     (case getStringType env (emptyTypeAttributes env) StringTypes_unrestricted None builder of
        (stringType, builder1) \<Rightarrow>
      let transformer = DecodingTransformer stringType
                          (Some (makeEnumTransformer enumType stringType None))
      in
      case getEnumType env (getAttributes enumType) (cases_of enumType) builder1 of
        (reconstitutedEnum, builder2) \<Rightarrow>
      let attributes = transformationAttributes env reconstitutedEnum transformer debug
      in getStringType env attributes StringTypes_unrestricted (Some forwardingRef) builder2)"

definition replaceIntegerString ::
  "'a Collaborators \<Rightarrow> 'a Type \<Rightarrow> 'a GraphRewriteBuilder \<Rightarrow> TypeRef \<Rightarrow> bool
     \<Rightarrow> TypeRef \<times> 'a GraphRewriteBuilder" where
  "replaceIntegerString env t builder forwardingRef debug =
     (case getStringType env (emptyTypeAttributes env) StringTypes_unrestricted None builder of
        (stringType, builder1) \<Rightarrow>
      let transformer = DecodingTransformer stringType
                          (Some (ParseStringTransformer stringType None))
      in
      case reconstituteTypeAttributes env (getAttributes t) builder1 of (attrs', builder2) \<Rightarrow>
      case getPrimitiveType env ''integer'' (Some attrs') None builder2 of
        (target, builder3) \<Rightarrow>
      let attributes = transformationAttributes env target transformer debug
      in getStringType env attributes StringTypes_unrestricted (Some forwardingRef) builder3)"

subsection \<open>The dispatcher of makeTransformations\<close>

record RunContext =
  debugPrintTransformations :: bool
  debugPrintReconstitution :: bool

text \<open>
  The closure \<^verbatim>\<open>replace\<close> that \<^verbatim>\<open>makeTransformations\<close> hands to \<^verbatim>\<open>graph.rewrite\<close>
  (the rewrite engine itself is outside this development).
\<close>

definition replace ::
  "'a Collaborators \<Rightarrow> RunContext \<Rightarrow> 'a Type list \<Rightarrow> 'a GraphRewriteBuilder \<Rightarrow> TypeRef
     \<Rightarrow> error + (TypeRef \<times> 'a GraphRewriteBuilder)" where
  "replace env ctx setOfOneUnion builder forwardingRef =
     andThen (defined (iterableFirst setOfOneUnion)) (\<lambda>t.
       if isUnionType t then
         replaceUnion env t builder forwardingRef (debugPrintTransformations ctx)
       else if isArrayType t then
         Inr (replaceArray env t builder forwardingRef (debugPrintReconstitution ctx))
       else if isEnumType t then
         Inr (replaceEnum env t builder forwardingRef (debugPrintTransformations ctx))
       else if isPrimitiveStringTypeKind env (kind t) then
         Inr (replaceIntegerString env t builder forwardingRef (debugPrintReconstitution ctx))
       else Inl (Panic (''Cannot make transformation for type '' @ kind t)))"

subsection \<open>Locals of replaceUnion, named for the statements below\<close>

text \<open>
  The statements about \<^verbatim>\<open>replaceUnion\<close> speak of its local variables and of what it
  does for a single member. The definitions of this subsection name them. The first three
  follow the words of the specification and are compared with the source function
  \<^verbatim>\<open>reconstituteMember\<close> in the lemmas \<open>reconstituteMember_eq\<close> and
  \<open>reconstituteMembers_eq\<close>: a member is redirected when its kind is a primitive string
  kind with a target kind; the call made for a redirected member reconstitutes the member
  of the target kind when the union has one and asks for a new primitive of the target
  kind otherwise, and the call made for any other member reconstitutes that member;
  \<open>memberRefs\<close> are the handles the builder returns to these calls, made in the order
  of the members.
\<close>

definition isRedirected :: "'a Collaborators \<Rightarrow> 'a Type \<Rightarrow> bool" where
  "isRedirected env t =
     (isPrimitiveStringTypeKind env (kind t) \<and>
      targetTypeKindForTransformedStringTypeKind env (kind t) \<noteq> None)"

definition memberCall :: "'a Collaborators \<Rightarrow> 'a Type \<Rightarrow> 'a Type \<Rightarrow> 'a BuilderCall" where
  "memberCall env unionType t =
     (if isPrimitiveStringTypeKind env (kind t) then
        (case targetTypeKindForTransformedStringTypeKind env (kind t) of
           Some targetTypeKind \<Rightarrow>
             (case findMember unionType targetTypeKind of
                Some m \<Rightarrow> ReconstituteType m
              | None \<Rightarrow> GetPrimitiveType targetTypeKind None None)
         | None \<Rightarrow> ReconstituteType t)
      else ReconstituteType t)"

fun memberRefs :: "'a Collaborators \<Rightarrow> 'a Type \<Rightarrow> 'a GraphRewriteBuilder \<Rightarrow> 'a Type list \<Rightarrow> TypeRef list" where
  "memberRefs env unionType builder [] = []"
| "memberRefs env unionType builder (m # ms) =
     typeRefFor env builder (memberCall env unionType m)
       # memberRefs env unionType (builder @ [memberCall env unionType m]) ms"

text \<open>
  The locals \<^verbatim>\<open>reconstitutedMembersByKind\<close> and \<^verbatim>\<open>reconstitutedMemberSet\<close> of the
  source, as functions of the arguments of \<^verbatim>\<open>replaceUnion\<close>.
\<close>

definition reconstitutedMembersByKind ::
  "'a Collaborators \<Rightarrow> 'a Type \<Rightarrow> 'a GraphRewriteBuilder \<Rightarrow> (TypeKind \<times> TypeRef) list" where
  "reconstitutedMembersByKind env unionType builder =
     fst (reconstituteMembers env unionType (members unionType) []
            (emptyTypeAttributes env, builder))"

definition reconstitutedMemberSet ::
  "'a Collaborators \<Rightarrow> 'a Type \<Rightarrow> 'a GraphRewriteBuilder \<Rightarrow> TypeRef list" where
  "reconstitutedMemberSet env unionType builder =
     newSet (map snd (reconstitutedMembersByKind env unionType builder))"

text \<open>
  What \<^verbatim>\<open>transformerForKind\<close> returns when every member has an entry in the map (lemma
  \<open>transformerForKind_eq\<close>): nothing without a member of the kind, and otherwise a
  Decode of the member's reconstitution continued by the consumer.
\<close>

definition kindBranch ::
  "'a Type \<Rightarrow> (TypeKind \<times> TypeRef) list \<Rightarrow> bool \<Rightarrow> TypeKind \<Rightarrow> Transformer option" where
  "kindBranch unionType byKind haveUnion k =
     (case findMember unionType k of
        None \<Rightarrow> None
      | Some m \<Rightarrow>
          (case map_of byKind k of
             None \<Rightarrow> None
           | Some r \<Rightarrow> Some (DecodingTransformer r (consumer haveUnion r))))"

text \<open>
  The alternative that \<^verbatim>\<open>transformerForStringType\<close>, under \<^verbatim>\<open>defined\<close>, contributes
  for a string-like member \<open>t\<close> whose reconstitution is \<open>r\<close> (lemma
  \<open>transformerForStringType_Inr\<close>): for the plain string its UnionInstantiate (there is
  one only when there is a union), for an enumeration the case matcher, for any other the
  ParseString, the last two continued by the consumer.
\<close>

definition isAlternativeFor ::
  "(TypeKind \<times> TypeRef) list \<Rightarrow> bool \<Rightarrow> TypeRef \<Rightarrow> 'a Type \<Rightarrow> Transformer \<Rightarrow> bool" where
  "isAlternativeFor byKind haveUnion s t tr =
     (case map_of byKind (kind t) of
        None \<Rightarrow> False
      | Some r \<Rightarrow>
          (if kind t = ''string'' then haveUnion \<and> tr = UnionInstantiationTransformer r
           else if isEnumType t then tr = makeEnumTransformer t s (consumer haveUnion r)
           else tr = ParseStringTransformer s (consumer haveUnion r)))"

text \<open>
  The local \<^verbatim>\<open>additionalAttributes\<close> and the builder, after the members have been
  reconstituted.
\<close>

definition additionalAttributesOf ::
  "'a Collaborators \<Rightarrow> 'a Type \<Rightarrow> 'a GraphRewriteBuilder \<Rightarrow> 'a" where
  "additionalAttributesOf env unionType builder =
     fst (snd (reconstituteMembers env unionType (members unionType) []
                 (emptyTypeAttributes env, builder)))"

definition builderAfterMembers ::
  "'a Collaborators \<Rightarrow> 'a Type \<Rightarrow> 'a GraphRewriteBuilder \<Rightarrow> 'a GraphRewriteBuilder" where
  "builderAfterMembers env unionType builder =
     snd (snd (reconstituteMembers env unionType (members unionType) []
                 (emptyTypeAttributes env, builder)))"

text \<open>Whether a UnionInstantiationTransformer occurs anywhere in a transformer.\<close>

fun containsUnionInstantiation :: "Transformer \<Rightarrow> bool" where
  "containsUnionInstantiation (DecodingTransformer s k) =
     (case k of None \<Rightarrow> False | Some t \<Rightarrow> containsUnionInstantiation t)"
| "containsUnionInstantiation (ParseStringTransformer s k) =
     (case k of None \<Rightarrow> False | Some t \<Rightarrow> containsUnionInstantiation t)"
| "containsUnionInstantiation (StringMatchTransformer s t c) = containsUnionInstantiation t"
| "containsUnionInstantiation (StringProducerTransformer s k c) =
     (case k of None \<Rightarrow> False | Some t \<Rightarrow> containsUnionInstantiation t)"
| "containsUnionInstantiation (ChoiceTransformer s ts) = list_ex containsUnionInstantiation ts"
| "containsUnionInstantiation (UnionInstantiationTransformer r) = True"
| "containsUnionInstantiation (DecodingChoiceTransformer s n i d b st a ob) =
     list_ex (\<lambda>k. case k of None \<Rightarrow> False | Some t \<Rightarrow> containsUnionInstantiation t)
       [n, i, d, b, st, a, ob]"
| "containsUnionInstantiation (ArrayDecodingTransformer s k r t) =
     ((case k of None \<Rightarrow> False | Some t' \<Rightarrow> containsUnionInstantiation t') \<or>
      containsUnionInstantiation t)"

text \<open>
  In a Choice over the string-like members, the alternative of the plain string member is
  its UnionInstantiationTransformer itself.
\<close>

fun isPlainStringAlternative :: "Transformer \<Rightarrow> bool" where
  "isPlainStringAlternative (UnionInstantiationTransformer r) = True"
| "isPlainStringAlternative t = False"

text \<open>
  The ordering policy the specification asks for, in its words: the plain-string
  alternative is last, the matched and parsed alternatives come first.
\<close>

fun plainStringAlternativeLast :: "Transformer list \<Rightarrow> bool" where
  "plainStringAlternativeLast [] = True"
| "plainStringAlternativeLast [t] = True"
| "plainStringAlternativeLast (t # t' # ts) =
     (\<not> isPlainStringAlternative t \<and> plainStringAlternativeLast (t' # ts))"

text \<open>A Decode without continuation.\<close>

fun isBareDecode :: "Transformer \<Rightarrow> bool" where
  "isBareDecode (DecodingTransformer s None) = True"
| "isBareDecode t = False"

text \<open>
  The members for which \<^verbatim>\<open>replaceUnion\<close> builds a branch or an alternative that can
  carry a continuation: those of a kind the DecodingChoice has a branch for, and the
  string-like ones, but for an enumeration without cases (its Choice has no alternative).
\<close>

definition isDispatched :: "'a Collaborators \<Rightarrow> 'a Type \<Rightarrow> bool" where
  "isDispatched env m =
     ((kind m = ''null'' \<or> kind m = ''integer'' \<or> kind m = ''double'' \<or> kind m = ''bool'' \<or>
       kind m = ''array'' \<or> kind m = ''class'' \<or> kind m = ''map'' \<or>
       isPrimitiveStringTypeKind env (kind m) \<or> kind m = ''enum'') \<and>
      (if isEnumType m then cases_of m \<noteq> [] else True))"

subsection \<open>A concrete set of collaborators\<close>

text \<open>
  An instance of the collaborators on which the functions above can be run: attributes are
  lists, combined by concatenation; the primitive string kinds are the plain string, the
  date, the time and the integer-as-string kind, whose target is the integer kind; the
  engine answers a \<^verbatim>\<open>reconstituteType\<close> with the handle of the old type (so the same old type always
  gets the same handle), a constructor called with a forwarding handle with that handle,
  and every other call with a fresh handle.
\<close>

datatype ExampleAttribute = Description string | TransformationAttribute Transformation

fun exampleTypeRefFor ::
  "ExampleAttribute list BuilderCall list \<Rightarrow> ExampleAttribute list BuilderCall \<Rightarrow> TypeRef" where
  "exampleTypeRefFor log (ReconstituteType t) = typeRef t"
| "exampleTypeRefFor log (GetPrimitiveType k a (Some f)) = f"
| "exampleTypeRefFor log (GetStringType a st (Some f)) = f"
| "exampleTypeRefFor log (GetArrayType a i (Some f)) = f"
| "exampleTypeRefFor log c = 1000 + length log"

definition exampleCollaborators :: "ExampleAttribute list Collaborators" where
  "exampleCollaborators = \<lparr>
     isPrimitiveStringTypeKind =
       (\<lambda>k. k = ''string'' \<or> k = ''date'' \<or> k = ''time'' \<or> k = ''integer-string''),
     targetTypeKindForTransformedStringTypeKind =
       (\<lambda>k. if k = ''integer-string'' then Some ''integer'' else None),
     emptyTypeAttributes = [],
     combineTypeAttributes = (\<lambda>k a b. a @ b),
     makeAttributes = (\<lambda>t. [TransformationAttribute t]),
     typeRefFor = exampleTypeRefFor,
     attributesFor = (\<lambda>log a. a) \<rparr>"

text \<open>
  The same collaborators behind a rewrite whose string type mapping has no date and no
  time type: the reconstitution of a primitive of either kind is the plain string type of
  the new graph (handle 50).
\<close>

fun mappedTypeRefFor ::
  "ExampleAttribute list BuilderCall list \<Rightarrow> ExampleAttribute list BuilderCall \<Rightarrow> TypeRef" where
  "mappedTypeRefFor log (ReconstituteType (PrimitiveType r k a)) =
     (if k = ''date'' \<or> k = ''time'' \<or> k = ''string'' then 50 else r)"
| "mappedTypeRefFor log c = exampleTypeRefFor log c"

definition mappedCollaborators :: "ExampleAttribute list Collaborators" where
  "mappedCollaborators = exampleCollaborators \<lparr> typeRefFor := mappedTypeRefFor \<rparr>"


definition exampleContext :: RunContext where
  "exampleContext = \<lparr> debugPrintTransformations = False, debugPrintReconstitution = False \<rparr>"

section \<open>Auxiliary facts\<close>

text \<open>The order in which \<open>sort\<close> puts strings is the lexicographic order of their characters.\<close>

lemma string_less_lexicographic:
  "(xs :: string) < ys \<longleftrightarrow> (xs, ys) \<in> lexord {(a, b). a < b}"
  by (simp add: list_less_def)

lemma set_setAddAll: "set (setAddAll s xs) = set s \<union> set xs"
  by (induction xs arbitrary: s) auto

lemma distinct_setAddAll: "distinct s \<Longrightarrow> distinct (setAddAll s xs)"
  by (induction xs arbitrary: s) auto

lemma set_newSet: "set (newSet xs) = set xs"
  by (simp add: newSet_def set_setAddAll)

lemma distinct_newSet: "distinct (newSet xs)"
  by (simp add: newSet_def distinct_setAddAll)

lemma newSet_eq_Nil: "newSet xs = [] \<longleftrightarrow> xs = []"
  using set_newSet [of xs] by (metis set_empty)

lemma hd_setAddAll: "s \<noteq> [] \<Longrightarrow> hd (setAddAll s xs) = hd s"
  by (induction xs arbitrary: s) auto

lemma hd_newSet: "xs \<noteq> [] \<Longrightarrow> hd (newSet xs) = hd xs"
  by (cases xs) (simp_all add: newSet_def hd_setAddAll)

lemma map_of_mapSet: "map_of (mapSet m k v) = (map_of m)(k \<mapsto> v)"
  by (induction m k v rule: mapSet.induct) (auto simp: fun_eq_iff)

lemma mapSet_neq_Nil: "mapSet m k v \<noteq> []"
  by (cases m) (auto split: if_splits)

lemma keys_mapSet: "map fst (mapSet m k v) = (if k \<in> fst ` set m then map fst m else map fst m @ [k])"
  by (induction m k v rule: mapSet.induct) (auto)

lemma reconstituteMember_eq:
  "reconstituteMember env u t (aa, b) =
     (typeRefFor env b (memberCall env u t),
      (if isRedirected env t then combineTypeAttributes env ''union'' aa (getAttributes t) else aa,
       b @ [memberCall env u t]))"
  by (auto simp: reconstituteMember_def memberCall_def isRedirected_def reconstituteType_def
      getPrimitiveType_def Let_def split: option.splits)

lemma reconstituteMembers_eq:
  "reconstituteMembers env u ms byKind (aa, b) =
     (foldl (\<lambda>m (k, r). mapSet m k r) byKind (zip (map kind ms) (memberRefs env u b ms)),
      (foldl (\<lambda>acc t. combineTypeAttributes env ''union'' acc (getAttributes t)) aa
         (filter (isRedirected env) ms),
       b @ map (memberCall env u) ms))"
  by (induction ms arbitrary: byKind aa b) (simp_all add: reconstituteMember_eq)

lemma length_memberRefs: "length (memberRefs env u b ms) = length ms"
  by (induction ms arbitrary: b) auto

lemma dom_foldl_mapSet:
  "dom (map_of (foldl (\<lambda>m (k, r). mapSet m k r) byKind kvs)) = dom (map_of byKind) \<union> fst ` set kvs"
  by (induction kvs arbitrary: byKind) (auto simp: map_of_mapSet)

lemma findMember_SomeD: "findMember u k = Some m \<Longrightarrow> kind m = k \<and> m \<in> set (members u)"
  by (auto simp: findMember_def find_Some_iff)

lemma findMember_None_iff: "findMember u k = None \<longleftrightarrow> (\<forall>m\<in>set (members u). kind m \<noteq> k)"
  by (auto simp: findMember_def find_None_iff)

lemma dom_reconstitutedMembersByKind:
  "dom (map_of (reconstitutedMembersByKind env u b)) = kind ` set (members u)"
proof -
  have "map fst (zip (map kind (members u)) (memberRefs env u b (members u))) = map kind (members u)"
    by (simp add: length_memberRefs)
  then have "fst ` set (zip (map kind (members u)) (memberRefs env u b (members u)))
      = kind ` set (members u)"
    by (metis set_map)
  then show ?thesis
    by (simp add: reconstitutedMembersByKind_def reconstituteMembers_eq dom_foldl_mapSet)
qed

lemma reconstitutedMemberSet_neq_Nil:
  assumes "members u \<noteq> []"
  shows "reconstitutedMemberSet env u b \<noteq> []"
proof -
  from assms obtain m where "m \<in> set (members u)" by (cases "members u") auto
  then have "kind m \<in> dom (map_of (reconstitutedMembersByKind env u b))"
    by (simp add: dom_reconstitutedMembersByKind)
  then have "reconstitutedMembersByKind env u b \<noteq> []" by auto
  then show ?thesis by (simp add: reconstitutedMemberSet_def newSet_eq_Nil)
qed

lemma transformerForKind_eq:
  assumes "kind ` set (members u) \<subseteq> dom (map_of byKind)"
  shows "transformerForKind u byKind hu k = Inr (kindBranch u byKind hu k)"
proof (cases "findMember u k")
  case None
  then show ?thesis by (simp add: transformerForKind_def kindBranch_def)
next
  case (Some m)
  then have "k \<in> dom (map_of byKind)" using assms findMember_SomeD [OF Some] by auto
  then obtain r where "map_of byKind k = Some r" by auto
  with Some show ?thesis
    by (simp add: transformerForKind_def kindBranch_def memberForKind_def defined_def andThen_def)
qed

lemma transformerForStringType_Inr:
  assumes "transformerForStringType env byKind hu t (Some s, b) = Inr (x, st')"
  shows "st' = (Some s, b) \<and> (\<forall>tr. x = Some tr \<longrightarrow> isAlternativeFor byKind hu s t tr)"
  using assms
  by (auto simp: andThen_def transformerForStringType_def memberForKind_def defined_def
      replaceUnion_getStringType_def isAlternativeFor_def consumer_def
      split: sum.splits option.splits if_splits)

lemma transformersForStringTypes_Inr:
  assumes "transformersForStringTypes env byKind hu ts (Some s, b) = Inr (trs, st')"
  shows "st' = (Some s, b) \<and> list_all2 (isAlternativeFor byKind hu s) ts trs"
  using assms
proof (induction ts arbitrary: trs)
  case Nil
  then show ?case by simp
next
  case (Cons t ts)
  from Cons.prems obtain x st1 tr trs' st2 where
    a: "transformerForStringType env byKind hu t (Some s, b) = Inr (x, st1)"
    and b: "x = Some tr"
    and c: "transformersForStringTypes env byKind hu ts st1 = Inr (trs', st2)"
    and d: "trs = tr # trs'" "st' = st2"
    by (auto simp: andThen_def defined_def split: sum.splits option.splits prod.splits)
  from transformerForStringType_Inr [OF a] b
  have e: "st1 = (Some s, b)" "isAlternativeFor byKind hu s t tr" by auto
  from c e(1) Cons.IH [of trs'] d have "st2 = (Some s, b) \<and> list_all2 (isAlternativeFor byKind hu s) ts trs'"
    by simp
  with d e show ?case by simp
qed

lemma transformersForStringTypes_Inl:
  assumes "transformersForStringTypes env byKind hu ts (Some s, b) = Inl e"
    and "kind ` set ts \<subseteq> dom (map_of byKind)"
  shows "e = DefinedValueExpected \<and> \<not> hu \<and> (\<exists>t\<in>set ts. kind t = ''string'')"
  using assms
proof (induction ts)
  case Nil
  then show ?case by simp
next
  case (Cons t ts)
  then show ?case
    by (auto simp: andThen_def transformerForStringType_def memberForKind_def defined_def
        replaceUnion_getStringType_def consumer_def
        split: sum.splits option.splits if_splits prod.splits)
qed

lemma reconstituteMembers_locals:
  "reconstituteMembers env u (members u) [] (emptyTypeAttributes env, b) =
     (reconstitutedMembersByKind env u b, (additionalAttributesOf env u b, builderAfterMembers env u b))"
  by (simp add: reconstitutedMembersByKind_def additionalAttributesOf_def builderAfterMembers_def)

lemma builderAfterMembers_eq:
  "builderAfterMembers env u b = b @ map (memberCall env u) (members u)"
  by (simp add: builderAfterMembers_def reconstituteMembers_eq)

lemma additionalAttributesOf_eq:
  "additionalAttributesOf env u b =
     foldl (\<lambda>acc t. combineTypeAttributes env ''union'' acc (getAttributes t))
       (emptyTypeAttributes env) (filter (isRedirected env) (members u))"
  by (simp add: additionalAttributesOf_def reconstituteMembers_eq)

lemma defined_iterableFirst: "xs \<noteq> [] \<Longrightarrow> defined (iterableFirst xs) = Inr (hd xs)"
  by (cases xs) (simp_all add: defined_def iterableFirst_def)

lemma covers_reconstitutedMembersByKind:
  "kind ` set (members u) \<subseteq> dom (map_of (reconstitutedMembersByKind env u b))"
  by (simp add: dom_reconstitutedMembersByKind)

lemmas transformerForKind_locals =
  transformerForKind_eq [OF covers_reconstitutedMembersByKind]

lemma replaceUnion_transformer_eq:
  "replaceUnion_transformer env u b =
     (if members u = [] then Inl (AssertionFailed ''We can't have empty unions'')
      else
        let byKind = reconstitutedMembersByKind env u b;
            S = reconstitutedMemberSet env u b;
            hu = (1 < length S);
            b1 = builderAfterMembers env u b;
            b2 = (if hu then b1 @ [GetUnionType (getAttributes u) S]
                  else b1 @ [SetLostTypeAttributes]);
            target = (if hu then typeRefFor env b1 (GetUnionType (getAttributes u) S) else hd S)
        in (case transformerForString env u byKind hu (None, b2) of
              Inl e \<Rightarrow> Inl e
            | Inr (trString, (mst, b4)) \<Rightarrow>
                if kindBranch u byKind hu ''class'' \<noteq> None \<and> kindBranch u byKind hu ''map'' \<noteq> None
                then Inl (AssertionFailed ''Can't have both class and map in a transformed union'')
                else Inr (target,
                          DecodingChoiceTransformer
                            (typeRefFor env b4 (GetPrimitiveType ''any'' None None))
                            (kindBranch u byKind hu ''null'')
                            (kindBranch u byKind hu ''integer'')
                            (kindBranch u byKind hu ''double'')
                            (kindBranch u byKind hu ''bool'')
                            trString
                            (kindBranch u byKind hu ''array'')
                            (if kindBranch u byKind hu ''class'' \<noteq> None
                             then kindBranch u byKind hu ''class''
                             else kindBranch u byKind hu ''map''),
                          additionalAttributesOf env u b,
                          b4 @ [GetPrimitiveType ''any'' None None])))"
proof (cases "members u = []")
  case True
  then show ?thesis by (simp add: replaceUnion_transformer_def assert_def andThen_def)
next
  case False
  have S: "reconstitutedMemberSet env u b \<noteq> []"
    using False by (rule reconstitutedMemberSet_neq_Nil)
  let ?hu = "1 < length (reconstitutedMemberSet env u b)"
  let ?b2 = "if ?hu then builderAfterMembers env u b @ [GetUnionType (getAttributes u) (reconstitutedMemberSet env u b)]
             else builderAfterMembers env u b @ [SetLostTypeAttributes]"
  show ?thesis
  proof (cases "transformerForString env u (reconstitutedMembersByKind env u b) ?hu (None, ?b2)")
    case (Inl e)
    then show ?thesis
      using False S
      by (cases ?hu)
         (simp_all add: replaceUnion_transformer_def assert_def andThen_def reconstituteMembers_locals
          reconstitutedMemberSet_def [symmetric] Let_def
          defined_iterableFirst setLostTypeAttributes_def getUnionType_def)
  next
    case (Inr x)
    obtain trString mst b4 where x: "x = (trString, (mst, b4))" by (cases x) auto
    show ?thesis
      using False S Inr x
      by (cases ?hu)
         (simp_all add: replaceUnion_transformer_def assert_def andThen_def reconstituteMembers_locals
          reconstitutedMemberSet_def [symmetric] Let_def transformerForKind_locals
          defined_iterableFirst setLostTypeAttributes_def getUnionType_def getPrimitiveType_def)
  qed
qed

lemma transformerForString_none:
  assumes "stringTypeMembers env u = []"
  shows "transformerForString env u byKind hu st = Inr (None, st)"
  using assms by (simp add: transformerForString_def)

lemma transformerForString_one:
  assumes "stringTypeMembers env u = [t]"
    and "kind ` set (members u) \<subseteq> dom (map_of byKind)"
  shows "transformerForString env u byKind hu st = Inr (kindBranch u byKind hu (kind t), st)"
  using assms
  by (simp add: transformerForString_def defined_def iterableFirst_def andThen_def
      transformerForKind_eq)

lemma transformerForString_many_Inr:
  assumes "1 < length (stringTypeMembers env u)"
    and "transformerForString env u byKind hu (None, b) = Inr (tr, st')"
  shows "\<exists>alts.
           tr = Some (DecodingTransformer
                        (typeRefFor env b (GetStringType (emptyTypeAttributes env) StringTypes_unrestricted None))
                        (Some (ChoiceTransformer
                                 (typeRefFor env b (GetStringType (emptyTypeAttributes env) StringTypes_unrestricted None))
                                 alts))) \<and>
           list_all2 (isAlternativeFor byKind hu
                        (typeRefFor env b (GetStringType (emptyTypeAttributes env) StringTypes_unrestricted None)))
             (stringTypeMembers env u) alts \<and>
           st' = (Some (typeRefFor env b (GetStringType (emptyTypeAttributes env) StringTypes_unrestricted None)),
                  b @ [GetStringType (emptyTypeAttributes env) StringTypes_unrestricted None])"
proof -
  let ?s = "typeRefFor env b (GetStringType (emptyTypeAttributes env) StringTypes_unrestricted None)"
  let ?b' = "b @ [GetStringType (emptyTypeAttributes env) StringTypes_unrestricted None]"
  from assms(1) have ne: "stringTypeMembers env u \<noteq> []" "length (stringTypeMembers env u) \<noteq> 1"
    by auto
  from assms(2) ne obtain trs st3 where
    a: "transformersForStringTypes env byKind hu (stringTypeMembers env u) (Some ?s, ?b') = Inr (trs, st3)"
    and b: "tr = Some (DecodingTransformer ?s (Some (ChoiceTransformer ?s trs)))" "st' = st3"
    by (auto simp: transformerForString_def replaceUnion_getStringType_def getStringType_def
        andThen_def Let_def split: sum.splits prod.splits)
  from transformersForStringTypes_Inr [OF a] b show ?thesis by auto
qed

lemma transformerForString_many_Inl:
  assumes "1 < length (stringTypeMembers env u)"
    and "transformerForString env u byKind hu (None, b) = Inl e"
    and "kind ` set (members u) \<subseteq> dom (map_of byKind)"
  shows "e = DefinedValueExpected \<and> \<not> hu \<and> (\<exists>t\<in>set (stringTypeMembers env u). kind t = ''string'')"
proof -
  let ?s = "typeRefFor env b (GetStringType (emptyTypeAttributes env) StringTypes_unrestricted None)"
  let ?b' = "b @ [GetStringType (emptyTypeAttributes env) StringTypes_unrestricted None]"
  from assms(1) have ne: "stringTypeMembers env u \<noteq> []" "length (stringTypeMembers env u) \<noteq> 1"
    by auto
  from assms(2) ne have
    a: "transformersForStringTypes env byKind hu (stringTypeMembers env u) (Some ?s, ?b') = Inl e"
    by (auto simp: transformerForString_def replaceUnion_getStringType_def getStringType_def
        andThen_def Let_def split: sum.splits prod.splits)
  have "kind ` set (stringTypeMembers env u) \<subseteq> dom (map_of byKind)"
    using assms(3) by (auto simp: stringTypeMembers_def)
  from transformersForStringTypes_Inl [OF a this] show ?thesis .
qed


lemma transformerForString_builder:
  assumes "transformerForString env u byKind hu (None, b) = Inr (tr, (mst, b4))"
  shows "b4 = (if 1 < length (stringTypeMembers env u)
               then b @ [GetStringType (emptyTypeAttributes env) StringTypes_unrestricted None]
               else b)"
proof (cases "1 < length (stringTypeMembers env u)")
  case True
  from transformerForString_many_Inr [OF True assms] True show ?thesis by auto
next
  case False
  then have "stringTypeMembers env u = [] \<or> (\<exists>t. stringTypeMembers env u = [t])"
    by (cases "stringTypeMembers env u") auto
  then show ?thesis
  proof
    assume "stringTypeMembers env u = []"
    with assms show ?thesis by (simp add: transformerForString_def)
  next
    assume "\<exists>t. stringTypeMembers env u = [t]"
    then obtain t where "stringTypeMembers env u = [t]" ..
    with assms show ?thesis
      by (auto simp: transformerForString_def andThen_def Let_def split: sum.splits)
  qed
qed

lemma replaceUnion_Inr:
  assumes "replaceUnion env u b fwd dbg = Inr (r, b')"
  defines "byKind \<equiv> reconstitutedMembersByKind env u b"
    and "S \<equiv> reconstitutedMemberSet env u b"
    and "b1 \<equiv> builderAfterMembers env u b"
  defines "hu \<equiv> (1 < length S)"
  defines "b2 \<equiv> (if hu then b1 @ [GetUnionType (getAttributes u) S] else b1 @ [SetLostTypeAttributes])"
    and "target \<equiv> (if hu then typeRefFor env b1 (GetUnionType (getAttributes u) S) else hd S)"
  shows "\<exists>trString mst b4.
           members u \<noteq> [] \<and>
           transformerForString env u byKind hu (None, b2) = Inr (trString, (mst, b4)) \<and>
           (kindBranch u byKind hu ''class'' = None \<or> kindBranch u byKind hu ''map'' = None) \<and>
           replaceUnion_transformer env u b =
             Inr (target,
                  DecodingChoiceTransformer
                    (typeRefFor env b4 (GetPrimitiveType ''any'' None None))
                    (kindBranch u byKind hu ''null'')
                    (kindBranch u byKind hu ''integer'')
                    (kindBranch u byKind hu ''double'')
                    (kindBranch u byKind hu ''bool'')
                    trString
                    (kindBranch u byKind hu ''array'')
                    (if kindBranch u byKind hu ''class'' \<noteq> None
                     then kindBranch u byKind hu ''class''
                     else kindBranch u byKind hu ''map''),
                  additionalAttributesOf env u b,
                  b4 @ [GetPrimitiveType ''any'' None None]) \<and>
           b' = b4 @ [GetPrimitiveType ''any'' None None,
                      GetPrimitiveType ''any''
                        (Some (combineTypeAttributes env ''union''
                                 (makeAttributes env
                                    (Transformation target
                                       (DecodingChoiceTransformer
                                          (typeRefFor env b4 (GetPrimitiveType ''any'' None None))
                                          (kindBranch u byKind hu ''null'')
                                          (kindBranch u byKind hu ''integer'')
                                          (kindBranch u byKind hu ''double'')
                                          (kindBranch u byKind hu ''bool'')
                                          trString
                                          (kindBranch u byKind hu ''array'')
                                          (if kindBranch u byKind hu ''class'' \<noteq> None
                                           then kindBranch u byKind hu ''class''
                                           else kindBranch u byKind hu ''map''))))
                                 (additionalAttributesOf env u b)))
                        (Some fwd)] \<and>
           r = typeRefFor env (butlast b') (last b')"
proof -
  from assms(1) obtain x where x: "replaceUnion_transformer env u b = Inr x"
    by (auto simp: replaceUnion_def andThen_def split: sum.splits)
  have ne: "members u \<noteq> []"
    using x by (auto simp: replaceUnion_transformer_eq split: if_splits)
  from x ne obtain trString mst b4 where
    ts: "transformerForString env u byKind hu (None, b2) = Inr (trString, (mst, b4))"
    unfolding replaceUnion_transformer_eq byKind_def hu_def b2_def S_def b1_def Let_def
    by (auto split: sum.splits if_splits)
  from x ne ts have cm: "kindBranch u byKind hu ''class'' = None \<or> kindBranch u byKind hu ''map'' = None"
    unfolding replaceUnion_transformer_eq byKind_def hu_def b2_def S_def b1_def Let_def
    by (auto split: if_splits)
  from ne ts cm have eq: "replaceUnion_transformer env u b =
             Inr (target,
                  DecodingChoiceTransformer
                    (typeRefFor env b4 (GetPrimitiveType ''any'' None None))
                    (kindBranch u byKind hu ''null'')
                    (kindBranch u byKind hu ''integer'')
                    (kindBranch u byKind hu ''double'')
                    (kindBranch u byKind hu ''bool'')
                    trString
                    (kindBranch u byKind hu ''array'')
                    (if kindBranch u byKind hu ''class'' \<noteq> None
                     then kindBranch u byKind hu ''class''
                     else kindBranch u byKind hu ''map''),
                  additionalAttributesOf env u b,
                  b4 @ [GetPrimitiveType ''any'' None None])"
    unfolding replaceUnion_transformer_eq [of env u b] byKind_def hu_def b2_def S_def b1_def
      target_def Let_def
    by auto
  from assms(1) have "b' = b4 @ [GetPrimitiveType ''any'' None None,
                      GetPrimitiveType ''any''
                        (Some (combineTypeAttributes env ''union''
                                 (makeAttributes env
                                    (Transformation target
                                       (DecodingChoiceTransformer
                                          (typeRefFor env b4 (GetPrimitiveType ''any'' None None))
                                          (kindBranch u byKind hu ''null'')
                                          (kindBranch u byKind hu ''integer'')
                                          (kindBranch u byKind hu ''double'')
                                          (kindBranch u byKind hu ''bool'')
                                          trString
                                          (kindBranch u byKind hu ''array'')
                                          (if kindBranch u byKind hu ''class'' \<noteq> None
                                           then kindBranch u byKind hu ''class''
                                           else kindBranch u byKind hu ''map''))))
                                 (additionalAttributesOf env u b)))
                        (Some fwd)] \<and>
           r = typeRefFor env (butlast b') (last b')"
    unfolding replaceUnion_def eq
    by (auto simp: andThen_def transformationAttributes_def getPrimitiveType_def Let_def
        butlast_append)
  with ne ts cm eq show ?thesis by blast
qed

lemma memberCall_cases:
  "(\<exists>t'. memberCall env u t = ReconstituteType t') \<or> (\<exists>k. memberCall env u t = GetPrimitiveType k None None)"
  by (auto simp: memberCall_def split: option.splits)

lemma memberCall_neq:
  "memberCall env u t \<noteq> SetLostTypeAttributes" "memberCall env u t \<noteq> GetUnionType a ms"
  using memberCall_cases [of env u t] by auto

lemma kindBranch_None_iff:
  "kindBranch u (reconstitutedMembersByKind env u b) hu k = None \<longleftrightarrow> findMember u k = None"
proof (cases "findMember u k")
  case None
  then show ?thesis by (simp add: kindBranch_def)
next
  case (Some m)
  from findMember_SomeD [OF Some] have "k \<in> dom (map_of (reconstitutedMembersByKind env u b))"
    by (auto simp: dom_reconstitutedMembersByKind)
  then show ?thesis using Some by (auto simp: kindBranch_def)
qed

lemma kindBranch_shape:
  "kindBranch u byKind hu k = None \<or>
   (\<exists>r. map_of byKind k = Some r \<and> kindBranch u byKind hu k = Some (DecodingTransformer r (consumer hu r)))"
  by (auto simp: kindBranch_def split: option.splits)

lemma transformerForString_Inl:
  assumes "transformerForString env u byKind hu (None, b) = Inl e"
    and "kind ` set (members u) \<subseteq> dom (map_of byKind)"
  shows "e = DefinedValueExpected \<and> 1 < length (stringTypeMembers env u) \<and> \<not> hu \<and>
         (\<exists>t\<in>set (stringTypeMembers env u). kind t = ''string'')"
proof (cases "1 < length (stringTypeMembers env u)")
  case True
  from transformerForString_many_Inl [OF True assms] True show ?thesis by simp
next
  case False
  then have "stringTypeMembers env u = [] \<or> (\<exists>t. stringTypeMembers env u = [t])"
    by (cases "stringTypeMembers env u") auto
  then show ?thesis
  proof
    assume "stringTypeMembers env u = []"
    from transformerForString_none [OF this] assms(1) show ?thesis by simp
  next
    assume "\<exists>t. stringTypeMembers env u = [t]"
    then obtain t where "stringTypeMembers env u = [t]" ..
    from transformerForString_one [OF this assms(2)] assms(1) show ?thesis by simp
  qed
qed

lemma replaceUnion_builder:
  assumes "replaceUnion env u builder forwardingRef debug = Inr (r, builder')"
  shows "\<exists>a. builder' =
           builder @ map (memberCall env u) (members u)
           @ [if 1 < length (reconstitutedMemberSet env u builder)
              then GetUnionType (getAttributes u) (reconstitutedMemberSet env u builder)
              else SetLostTypeAttributes]
           @ (if 1 < length (stringTypeMembers env u)
              then [GetStringType (emptyTypeAttributes env) StringTypes_unrestricted None] else [])
           @ [GetPrimitiveType ''any'' None None, GetPrimitiveType ''any'' (Some a) (Some forwardingRef)]"
proof -
  from replaceUnion_Inr [OF assms] obtain trString mst b4 where
    ts: "transformerForString env u (reconstitutedMembersByKind env u builder)
           (1 < length (reconstitutedMemberSet env u builder))
           (None, if 1 < length (reconstitutedMemberSet env u builder)
                  then builderAfterMembers env u builder
                       @ [GetUnionType (getAttributes u) (reconstitutedMemberSet env u builder)]
                  else builderAfterMembers env u builder @ [SetLostTypeAttributes])
         = Inr (trString, (mst, b4))"
    and b': "\<exists>a. builder' = b4 @ [GetPrimitiveType ''any'' None None,
                                GetPrimitiveType ''any'' (Some a) (Some forwardingRef)]"
    by blast
  from transformerForString_builder [OF ts] b' show ?thesis
    by (auto simp: builderAfterMembers_eq)
qed

lemmas run_defs =
  replaceUnion_def replaceUnion_transformer_def andThen_def assert_def defined_def
  iterableFirst_def reconstituteMember_def reconstituteType_def getPrimitiveType_def
  getStringType_def getUnionType_def getArrayType_def getEnumType_def
  setLostTypeAttributes_def reconstituteTypeAttributes_def findMember_def stringTypeMembers_def
  memberForKind_def consumer_def transformerForKind_def replaceUnion_getStringType_def
  transformerForStringType_def transformerForString_def newSet_def
  transformationAttributes_def makeEnumTransformer_def replace_def replaceEnum_def
  replaceIntegerString_def Let_def
  exampleCollaborators_def exampleContext_def mappedCollaborators_def
  less_eq_char_def less_char_def

lemma stringTypeMembers_subset: "set (stringTypeMembers env u) \<subseteq> set (members u)"
  by (auto simp: stringTypeMembers_def)

lemma kindBranch_member:
  assumes "t \<in> set (members u)"
  shows "\<exists>r. map_of (reconstitutedMembersByKind env u b) (kind t) = Some r \<and>
             kindBranch u (reconstitutedMembersByKind env u b) hu (kind t) =
               Some (DecodingTransformer r (consumer hu r))"
proof -
  from assms have "findMember u (kind t) \<noteq> None" by (auto simp: findMember_None_iff)
  then have "kindBranch u (reconstitutedMembersByKind env u b) hu (kind t) \<noteq> None"
    by (simp add: kindBranch_None_iff)
  with kindBranch_shape [of u "reconstitutedMembersByKind env u b" hu "kind t"] show ?thesis
    by auto
qed

lemma isAlternativeFor_plain:
  assumes "isAlternativeFor byKind hu s t a"
  shows "isPlainStringAlternative a \<longleftrightarrow> kind t = ''string''"
  using assms
  by (auto simp: isAlternativeFor_def makeEnumTransformer_def Let_def
      split: option.splits if_splits)

lemma plainStringAlternativeLast_iff:
  "plainStringAlternativeLast xs \<longleftrightarrow>
     (\<forall>i. Suc i < length xs \<longrightarrow> \<not> isPlainStringAlternative (xs ! i))"
proof (induction xs rule: plainStringAlternativeLast.induct)
  case 1
  then show ?case by simp
next
  case (2 t)
  then show ?case by simp
next
  case (3 t t' ts)
  show ?case
  proof
    assume a: "plainStringAlternativeLast (t # t' # ts)"
    then have h: "\<not> isPlainStringAlternative t"
      "\<forall>i. Suc i < length (t' # ts) \<longrightarrow> \<not> isPlainStringAlternative ((t' # ts) ! i)"
      using 3 by auto
    show "\<forall>i. Suc i < length (t # t' # ts) \<longrightarrow> \<not> isPlainStringAlternative ((t # t' # ts) ! i)"
    proof (intro allI impI)
      fix i assume i: "Suc i < length (t # t' # ts)"
      show "\<not> isPlainStringAlternative ((t # t' # ts) ! i)"
      proof (cases i)
        case 0
        with h(1) show ?thesis by simp
      next
        case (Suc j)
        with i h(2) show ?thesis by simp
      qed
    qed
  next
    assume a: "\<forall>i. Suc i < length (t # t' # ts) \<longrightarrow> \<not> isPlainStringAlternative ((t # t' # ts) ! i)"
    from a [rule_format, of 0] have h1: "\<not> isPlainStringAlternative t" by simp
    have "\<forall>i. Suc i < length (t' # ts) \<longrightarrow> \<not> isPlainStringAlternative ((t' # ts) ! i)"
    proof (intro allI impI)
      fix i assume "Suc i < length (t' # ts)"
      with a [rule_format, of "Suc i"] show "\<not> isPlainStringAlternative ((t' # ts) ! i)" by simp
    qed
    with 3 h1 show "plainStringAlternativeLast (t # t' # ts)" by simp
  qed
qed

lemmas local_defs =
  reconstitutedMemberSet_def reconstitutedMembersByKind_def builderAfterMembers_def
  additionalAttributesOf_def isAlternativeFor_def

lemma mapSet_fresh: "k \<notin> fst ` set m \<Longrightarrow> mapSet m k v = m @ [(k, v)]"
  by (induction m k v rule: mapSet.induct) auto

lemma foldl_mapSet_distinct:
  assumes "distinct (map fst kvs)" and "fst ` set kvs \<inter> fst ` set m = {}"
  shows "foldl (\<lambda>m (k, r). mapSet m k r) m kvs = m @ kvs"
  using assms
proof (induction kvs arbitrary: m)
  case Nil
  then show ?case by simp
next
  case (Cons kv kvs)
  obtain k v where kv: "kv = (k, v)" by (cases kv)
  from Cons.prems kv have fresh: "k \<notin> fst ` set m" by auto
  have step: "mapSet m k v = m @ [(k, v)]" using fresh by (rule mapSet_fresh)
  from Cons.prems kv have d: "distinct (map fst kvs)" by simp
  from Cons.prems kv have "fst ` set kvs \<inter> fst ` set (m @ [(k, v)]) = {}"
    by (auto simp: image_iff)
  from Cons.IH [OF d this] show ?case using kv step by simp
qed

lemma memberRefs_nth:
  "i < length ms \<Longrightarrow>
   memberRefs env u b ms ! i =
     typeRefFor env (b @ map (memberCall env u) (take i ms)) (memberCall env u (ms ! i))"
proof (induction ms arbitrary: b i)
  case Nil
  then show ?case by simp
next
  case (Cons m ms)
  show ?case
  proof (cases i)
    case 0
    then show ?thesis by simp
  next
    case (Suc j)
    with Cons.prems have "j < length ms" by simp
    from Cons.IH [OF this, of "b @ [memberCall env u m]"] Suc show ?thesis by simp
  qed
qed

lemma memberCall_redirected:
  "isRedirected env t \<Longrightarrow>
     \<exists>k. targetTypeKindForTransformedStringTypeKind env (kind t) = Some k \<and>
         memberCall env u t =
           (case findMember u k of
              Some m \<Rightarrow> ReconstituteType m
            | None \<Rightarrow> GetPrimitiveType k None None)"
  by (auto simp: isRedirected_def memberCall_def)

lemma memberCall_unchanged:
  "\<not> isRedirected env t \<Longrightarrow> memberCall env u t = ReconstituteType t"
  by (auto simp: isRedirected_def memberCall_def split: option.splits)

lemma containsUnionInstantiation_makeEnumTransformer:
  "containsUnionInstantiation (makeEnumTransformer t s k) \<longleftrightarrow>
     cases_of t \<noteq> [] \<and> (case k of None \<Rightarrow> False | Some x \<Rightarrow> containsUnionInstantiation x)"
proof -
  have "(\<exists>x. x \<in> set (cases_of t)) \<longleftrightarrow> cases_of t \<noteq> []"
    by (cases "cases_of t") auto
  then show ?thesis
    by (cases k) (auto simp: makeEnumTransformer_def Let_def list_ex_iff)
qed

lemma containsUnionInstantiation_consumer:
  "(case consumer hu m of None \<Rightarrow> False | Some x \<Rightarrow> containsUnionInstantiation x) \<longleftrightarrow> hu"
  by (simp add: consumer_def)

lemma containsUnionInstantiation_kindBranch:
  "(case kindBranch u byKind hu k of None \<Rightarrow> False | Some x \<Rightarrow> containsUnionInstantiation x)
     \<longleftrightarrow> hu \<and> kindBranch u byKind hu k \<noteq> None"
  using kindBranch_shape [of u byKind hu k]
  by (auto simp: containsUnionInstantiation_consumer)

lemma isAlternativeFor_contains:
  assumes "isAlternativeFor byKind hu s t a"
  shows "containsUnionInstantiation a \<longleftrightarrow> hu \<and> (isEnumType t \<longrightarrow> cases_of t \<noteq> [])"
proof -
  have e: "isEnumType t \<Longrightarrow> kind t \<noteq> ''string''" by (cases t) auto
  from assms e show ?thesis
    by (auto simp: isAlternativeFor_def containsUnionInstantiation_makeEnumTransformer
        containsUnionInstantiation_consumer split: option.splits if_splits)
qed

lemma isBareDecode_kindBranch:
  assumes "\<not> hu"
  shows "kindBranch u byKind hu k = None \<or>
         (\<exists>t. kindBranch u byKind hu k = Some t \<and> isBareDecode t)"
  using kindBranch_shape [of u byKind hu k] assms by (auto simp: consumer_def)





section \<open>The claims\<close>

subsection \<open>Enumerations\<close>

text \<open>
  Claim C3. For an enumeration type, \<^verbatim>\<open>replaceEnum\<close> makes three calls on the builder:
  it asks for the plain unrestricted string type, rebuilds the enum from the original
  attributes and the original cases, and asks for an unrestricted string type at the
  forwarding handle, which is what it returns. The attributes of that last type are the
  Transformation whose target is the rebuilt enum and whose forward transformer is a
  Decode of the string type continued by one Choice; the alternatives of the Choice are,
  for the cases in sorted (lexicographic) order, a StringMatch of the case continued by a
  StringProduce of the same case. The sorted list holds exactly the cases. (The order on
  strings is lexicographic, see \<open>string_less_lexicographic\<close>; JavaScript's default sort
  compares strings by their code units in the same way.)
\<close>

theorem replaceEnum_string_with_case_matcher:
  "replaceEnum env (EnumType ref attrs cs) builder forwardingRef debug =
     (let stringType = typeRefFor env builder
                         (GetStringType (emptyTypeAttributes env) StringTypes_unrestricted None);
          builder1 = builder @ [GetStringType (emptyTypeAttributes env) StringTypes_unrestricted None];
          reconstitutedEnum = typeRefFor env builder1 (GetEnumType attrs cs);
          builder2 = builder1 @ [GetEnumType attrs cs];
          forward = DecodingTransformer stringType
                      (Some (ChoiceTransformer stringType
                               (map (\<lambda>c. StringMatchTransformer stringType
                                            (StringProducerTransformer stringType None c) c)
                                    (sort cs))));
          replacement = GetStringType (makeAttributes env (Transformation reconstitutedEnum forward))
                          StringTypes_unrestricted (Some forwardingRef)
      in (typeRefFor env builder2 replacement, builder2 @ [replacement]))
   \<and> sorted (sort cs) \<and> set (sort cs) = set cs \<and> length (sort cs) = length cs"
  by (simp add: replaceEnum_def getStringType_def getEnumType_def makeEnumTransformer_def
      transformationAttributes_def Let_def)

text \<open>The enum with the cases Red and Blue: the Blue case is matched first.\<close>

lemma replaceEnum_example:
  "replaceEnum exampleCollaborators (EnumType 2 [Description ''colour''] [''Red'', ''Blue'']) [] 7 False =
     (7, [GetStringType [] StringTypes_unrestricted None,
          GetEnumType [Description ''colour''] [''Red'', ''Blue''],
          GetStringType
            [TransformationAttribute
               (Transformation 1001
                  (DecodingTransformer 1000
                     (Some (ChoiceTransformer 1000
                              [StringMatchTransformer 1000
                                 (StringProducerTransformer 1000 None ''Blue'') ''Blue'',
                               StringMatchTransformer 1000
                                 (StringProducerTransformer 1000 None ''Red'') ''Red'']))))]
            StringTypes_unrestricted (Some 7)])"
  by (simp add: replaceEnum_def getStringType_def getEnumType_def makeEnumTransformer_def
      transformationAttributes_def Let_def exampleCollaborators_def less_eq_char_def less_char_def)

subsection \<open>Arrays\<close>

text \<open>
  Claim C6. For an array type, \<^verbatim>\<open>replaceArray\<close> returns the array type over the
  untyped type \<^verbatim>\<open>any\<close> that it asks for at the forwarding handle. The Transformation in
  its attributes has as target the array type over the reconstituted item type of the
  original, with the reconstituted attributes of the original; its forward transformer is
  an ArrayDecode over the any-item array (built with empty attributes), with the
  reconstituted item type as type of the result's items, a Decode of \<^verbatim>\<open>any\<close> without
  continuation as transformer of the items, and no continuation of its own.
\<close>

theorem replaceArray_item_lifting:
  "replaceArray env (ArrayType ref attrs items) builder forwardingRef debug =
     (let anyType = typeRefFor env builder (GetPrimitiveType ''any'' None None);
          builder1 = builder @ [GetPrimitiveType ''any'' None None];
          anyArrayType = typeRefFor env builder1 (GetArrayType (emptyTypeAttributes env) anyType None);
          builder2 = builder1 @ [GetArrayType (emptyTypeAttributes env) anyType None];
          reconstitutedItems = typeRefFor env builder2 (ReconstituteType items);
          builder3 = builder2 @ [ReconstituteType items];
          attrs' = attributesFor env builder3 attrs;
          builder4 = builder3 @ [ReconstituteTypeAttributes attrs];
          reconstitutedArray = typeRefFor env builder4 (GetArrayType attrs' reconstitutedItems None);
          builder5 = builder4 @ [GetArrayType attrs' reconstitutedItems None];
          forward = ArrayDecodingTransformer anyArrayType None reconstitutedItems
                      (DecodingTransformer anyType None);
          replacement = GetArrayType (makeAttributes env (Transformation reconstitutedArray forward))
                          anyType (Some forwardingRef)
      in (typeRefFor env builder5 replacement, builder5 @ [replacement]))"
  by (simp add: getPrimitiveType_def getArrayType_def reconstituteType_def
      reconstituteTypeAttributes_def transformationAttributes_def Let_def)

subsection \<open>Transformed-string primitives\<close>




subsection \<open>Unions: collapse to a single member\<close>

text \<open>
  Claim C2. Let \<open>S\<close> be the set of the handles of the reconstituted members, without
  duplicates, and let \<open>calls\<close> be the calls \<^verbatim>\<open>replaceUnion\<close> made on the builder. When
  \<^verbatim>\<open>replaceUnion\<close> returns, \<open>S\<close> is not empty, and it has exactly one element if and only
  if \<^verbatim>\<open>setLostTypeAttributes\<close> is among the calls, and if and only if no \<^verbatim>\<open>getUnionType\<close>
  is among them. With one element, that element is the target of the Transformation;
  otherwise \<^verbatim>\<open>getUnionType\<close> was called with the attributes of the union and \<open>S\<close>, and
  the handle it returned is the target. The Transformation is the one in the attributes
  of the last call, which asks for the \<^verbatim>\<open>any\<close> type at the forwarding handle.
\<close>

theorem replaceUnion_collapse:
  assumes "replaceUnion env u builder forwardingRef debug = Inr (r, builder')"
  shows "let S = reconstitutedMemberSet env u builder;
             calls = drop (length builder) builder';
             target = (if length S = 1 then hd S
                       else typeRefFor env (builderAfterMembers env u builder)
                              (GetUnionType (getAttributes u) S))
         in builder' = builder @ calls \<and> distinct S \<and> S \<noteq> [] \<and>
            set S = snd ` set (reconstitutedMembersByKind env u builder) \<and>
            (length S = 1 \<longleftrightarrow> SetLostTypeAttributes \<in> set calls) \<and>
            (length S = 1 \<longleftrightarrow> (\<forall>a ms. GetUnionType a ms \<notin> set calls)) \<and>
            (length S \<noteq> 1 \<longrightarrow> GetUnionType (getAttributes u) S \<in> set calls) \<and>
            (length S = 1 \<longrightarrow> S = [target]) \<and>
            (\<exists>tr addl.
               replaceUnion_transformer env u builder = Inr (target, tr, addl, butlast builder') \<and>
               last builder' =
                 GetPrimitiveType ''any''
                   (Some (combineTypeAttributes env ''union''
                            (makeAttributes env (Transformation target tr)) addl))
                   (Some forwardingRef))"
proof -
  let ?S = "reconstitutedMemberSet env u builder"
  from replaceUnion_Inr [OF assms] have ne: "members u \<noteq> []" by blast
  have S: "?S \<noteq> []" using ne by (rule reconstitutedMemberSet_neq_Nil)
  then have len: "length ?S = 1 \<longleftrightarrow> \<not> 1 < length ?S" by (cases ?S) auto
  have d: "distinct ?S" by (simp add: reconstitutedMemberSet_def distinct_newSet)
  have st: "set ?S = snd ` set (reconstitutedMembersByKind env u builder)"
    by (simp add: reconstitutedMemberSet_def set_newSet)
  have one: "length ?S = 1 \<longrightarrow> ?S = [hd ?S]" by (cases ?S) auto
  from replaceUnion_builder [OF assms] obtain a where
    b': "builder' =
           builder @ map (memberCall env u) (members u)
           @ [if 1 < length ?S then GetUnionType (getAttributes u) ?S else SetLostTypeAttributes]
           @ (if 1 < length (stringTypeMembers env u)
              then [GetStringType (emptyTypeAttributes env) StringTypes_unrestricted None] else [])
           @ [GetPrimitiveType ''any'' None None, GetPrimitiveType ''any'' (Some a) (Some forwardingRef)]"
    by blast
  have calls: "drop (length builder) builder' =
           map (memberCall env u) (members u)
           @ [if 1 < length ?S then GetUnionType (getAttributes u) ?S else SetLostTypeAttributes]
           @ (if 1 < length (stringTypeMembers env u)
              then [GetStringType (emptyTypeAttributes env) StringTypes_unrestricted None] else [])
           @ [GetPrimitiveType ''any'' None None, GetPrimitiveType ''any'' (Some a) (Some forwardingRef)]"
    by (subst b') simp
  have m1: "SetLostTypeAttributes \<notin> memberCall env u ` set (members u)"
    using memberCall_neq(1) [of env u] by (metis imageE)
  have m2: "\<And>a ms. GetUnionType a ms \<notin> memberCall env u ` set (members u)"
    using memberCall_neq(2) [of env u] by (metis imageE)
  have c1: "length ?S = 1 \<longleftrightarrow> SetLostTypeAttributes \<in> set (drop (length builder) builder')"
    unfolding calls using m1 len by auto
  have c2: "length ?S = 1 \<longleftrightarrow> (\<forall>a ms. GetUnionType a ms \<notin> set (drop (length builder) builder'))"
    unfolding calls using m2 len by auto
  have c3: "length ?S \<noteq> 1 \<longrightarrow> GetUnionType (getAttributes u) ?S \<in> set (drop (length builder) builder')"
    unfolding calls using len by auto
  have pre: "builder' = builder @ drop (length builder) builder'"
    unfolding calls by (subst b') simp
  from replaceUnion_Inr [OF assms] len
  have tr: "\<exists>tr addl.
      replaceUnion_transformer env u builder =
        Inr (if length ?S = 1 then hd ?S
             else typeRefFor env (builderAfterMembers env u builder) (GetUnionType (getAttributes u) ?S),
             tr, addl, butlast builder') \<and>
      last builder' =
        GetPrimitiveType ''any''
          (Some (combineTypeAttributes env ''union''
                   (makeAttributes env
                      (Transformation
                         (if length ?S = 1 then hd ?S
                          else typeRefFor env (builderAfterMembers env u builder)
                                 (GetUnionType (getAttributes u) ?S)) tr)) addl))
          (Some forwardingRef)"
    by (auto simp: butlast_append)
  show ?thesis
    unfolding Let_def using pre d S st c1 c2 c3 one tr by auto
qed

text \<open>
  The union of an integer and an integer-as-string collapses to the integer; the union of
  an integer and a double does not collapse.
\<close>

theorem replaceUnion_collapse_witness:
  "replaceUnion exampleCollaborators
     (UnionType 10 [Description ''u'']
        [PrimitiveType 11 ''integer'' [], PrimitiveType 12 ''integer-string'' [Description ''is'']])
     [] 7 False =
   Inr (7, [ReconstituteType (PrimitiveType 11 ''integer'' []),
            ReconstituteType (PrimitiveType 11 ''integer'' []),
            SetLostTypeAttributes,
            GetPrimitiveType ''any'' None None,
            GetPrimitiveType ''any''
              (Some [TransformationAttribute
                       (Transformation 11
                          (DecodingChoiceTransformer 1003 None
                             (Some (DecodingTransformer 11 None)) None None
                             (Some (DecodingTransformer 11 None)) None None)),
                     Description ''is''])
              (Some 7)])
   \<and> reconstitutedMemberSet exampleCollaborators
         (UnionType 10 [Description ''u'']
            [PrimitiveType 11 ''integer'' [], PrimitiveType 12 ''integer-string'' [Description ''is'']])
         [] = [11]
   \<and> replaceUnion exampleCollaborators
     (UnionType 10 [Description ''u'']
        [PrimitiveType 11 ''integer'' [], PrimitiveType 12 ''double'' []])
     [] 7 False =
   Inr (7, [ReconstituteType (PrimitiveType 11 ''integer'' []),
            ReconstituteType (PrimitiveType 12 ''double'' []),
            GetUnionType [Description ''u''] [11, 12],
            GetPrimitiveType ''any'' None None,
            GetPrimitiveType ''any''
              (Some [TransformationAttribute
                       (Transformation 1002
                          (DecodingChoiceTransformer 1003 None
                             (Some (DecodingTransformer 11 (Some (UnionInstantiationTransformer 11))))
                             (Some (DecodingTransformer 12 (Some (UnionInstantiationTransformer 12))))
                             None None None None))])
              (Some 7)])
   \<and> reconstitutedMemberSet exampleCollaborators
         (UnionType 10 [Description ''u'']
            [PrimitiveType 11 ''integer'' [], PrimitiveType 12 ''double'' []])
         [] = [11, 12]"
proof -
  let ?u1 = "UnionType 10 [Description ''u'']
        [PrimitiveType 11 ''integer'' [], PrimitiveType 12 ''integer-string'' [Description ''is'']]"
  let ?u2 = "UnionType 10 [Description ''u'']
        [PrimitiveType 11 ''integer'' [], PrimitiveType 12 ''double'' []]"
  let ?l1 = "[ReconstituteType (PrimitiveType 11 ''integer'' []),
            ReconstituteType (PrimitiveType 11 ''integer'' []),
            SetLostTypeAttributes,
            GetPrimitiveType ''any'' None None,
            GetPrimitiveType ''any''
              (Some [TransformationAttribute
                       (Transformation 11
                          (DecodingChoiceTransformer 1003 None
                             (Some (DecodingTransformer 11 None)) None None
                             (Some (DecodingTransformer 11 None)) None None)),
                     Description ''is''])
              (Some 7)]"
  let ?l2 = "[ReconstituteType (PrimitiveType 11 ''integer'' []),
            ReconstituteType (PrimitiveType 12 ''double'' []),
            GetUnionType [Description ''u''] [11, 12],
            GetPrimitiveType ''any'' None None,
            GetPrimitiveType ''any''
              (Some [TransformationAttribute
                       (Transformation 1002
                          (DecodingChoiceTransformer 1003 None
                             (Some (DecodingTransformer 11 (Some (UnionInstantiationTransformer 11))))
                             (Some (DecodingTransformer 12 (Some (UnionInstantiationTransformer 12))))
                             None None None None))])
              (Some 7)]"
  have run1: "replaceUnion exampleCollaborators ?u1 [] 7 False = Inr (7, ?l1)"
    by (simp add: run_defs)
  have run2: "replaceUnion exampleCollaborators ?u2 [] 7 False = Inr (7, ?l2)"
    by (simp add: run_defs)
  have s1: "reconstitutedMemberSet exampleCollaborators ?u1 [] = [11]"
    by (simp add: reconstitutedMemberSet_def reconstitutedMembersByKind_def run_defs)
  have s2: "reconstitutedMemberSet exampleCollaborators ?u2 [] = [11, 12]"
    by (simp add: reconstitutedMemberSet_def reconstitutedMembersByKind_def run_defs)
  from replaceUnion_collapse [OF run1]
  have "length (reconstitutedMemberSet exampleCollaborators ?u1 []) = 1 \<longleftrightarrow>
        SetLostTypeAttributes \<in> set ?l1"
    by (simp add: Let_def)
  moreover from replaceUnion_collapse [OF run2]
  have "length (reconstitutedMemberSet exampleCollaborators ?u2 []) = 1 \<longleftrightarrow>
        SetLostTypeAttributes \<in> set ?l2"
    by (simp add: Let_def)
  ultimately show ?thesis using run1 run2 s1 s2 by simp
qed

subsection \<open>Fatal errors\<close>

text \<open>
  Claim C8 says that the dispatcher aborts on every type that is not a union, an array,
  an enum or a transformed-string primitive. The fourth test of the dispatcher (line 284)
  is \<^verbatim>\<open>isPrimitiveStringTypeKind(t.kind)\<close>, which the plain string kind passes as well. A
  primitive of the plain string kind is not a textual encoding of another primitive (its
  kind has no target kind), and the dispatcher returns a replacement for it.
\<close>

theorem dispatcher_plain_string_counterexample:
  "\<not> isUnionType (PrimitiveType 11 ''string'' ([] :: ExampleAttribute list))
   \<and> \<not> isArrayType (PrimitiveType 11 ''string'' ([] :: ExampleAttribute list))
   \<and> \<not> isEnumType (PrimitiveType 11 ''string'' ([] :: ExampleAttribute list))
   \<and> targetTypeKindForTransformedStringTypeKind exampleCollaborators ''string'' = None
   \<and> isPrimitiveStringTypeKind exampleCollaborators ''string''
   \<and> replace exampleCollaborators exampleContext [PrimitiveType 11 ''string'' []] [] 7 =
       Inr (7, [GetStringType [] StringTypes_unrestricted None,
                ReconstituteTypeAttributes [],
                GetPrimitiveType ''integer'' (Some []) None,
                GetStringType
                  [TransformationAttribute
                     (Transformation 1002
                        (DecodingTransformer 1000 (Some (ParseStringTransformer 1000 None))))]
                  StringTypes_unrestricted (Some 7)])"
  by (simp add: run_defs)

text \<open>
  Claim C8, as amended. \<^verbatim>\<open>replaceUnion\<close> on a union without members fails with the
  assertion ``We can't have empty unions''. On a union with a class member and a map
  member it fails as well: with the assertion ``Can't have both class and map in a
  transformed union'', unless the string branch, which is built first, has already failed
  on an undefined consumer. The dispatcher fails with a panic on a type that is not a
  union, an array or an enum and whose kind is not a primitive string kind; for a type
  that is not a union, an array or an enum and whose kind is a primitive string kind, the
  plain string kind included, it returns what \<^verbatim>\<open>replaceIntegerString\<close> returns. A union
  it hands to \<^verbatim>\<open>replaceUnion\<close>, so that the two failures above are failures of the
  dispatcher too.
\<close>

theorem fatal_invariant_violations:
  "(members u = [] \<longrightarrow>
      replaceUnion env u builder forwardingRef debug =
        Inl (AssertionFailed ''We can't have empty unions''))
   \<and> (findMember u ''class'' \<noteq> None \<and> findMember u ''map'' \<noteq> None \<longrightarrow>
        replaceUnion env u builder forwardingRef debug =
          Inl (AssertionFailed ''Can't have both class and map in a transformed union'')
        \<or> replaceUnion env u builder forwardingRef debug = Inl DefinedValueExpected)
   \<and> (\<not> isUnionType t \<and> \<not> isArrayType t \<and> \<not> isEnumType t \<and>
        \<not> isPrimitiveStringTypeKind env (kind t) \<longrightarrow>
        replace env ctx [t] builder forwardingRef =
          Inl (Panic (''Cannot make transformation for type '' @ kind t)))
   \<and> (\<not> isUnionType t \<and> \<not> isArrayType t \<and> \<not> isEnumType t \<and>
        isPrimitiveStringTypeKind env (kind t) \<longrightarrow>
        replace env ctx [t] builder forwardingRef =
          Inr (replaceIntegerString env t builder forwardingRef (debugPrintReconstitution ctx)))
   \<and> replace env ctx [UnionType ref attrs ms] builder forwardingRef =
        replaceUnion env (UnionType ref attrs ms) builder forwardingRef
          (debugPrintTransformations ctx)"
proof (intro conjI impI)
  assume "members u = []"
  then show "replaceUnion env u builder forwardingRef debug =
        Inl (AssertionFailed ''We can't have empty unions'')"
    by (simp add: replaceUnion_def replaceUnion_transformer_eq andThen_def)
next
  assume cm: "findMember u ''class'' \<noteq> None \<and> findMember u ''map'' \<noteq> None"
  then have ne: "members u \<noteq> []" by (auto simp: findMember_def)
  let ?byKind = "reconstitutedMembersByKind env u builder"
  let ?S = "reconstitutedMemberSet env u builder"
  let ?hu = "1 < length ?S"
  let ?b1 = "builderAfterMembers env u builder"
  let ?b2 = "if ?hu then ?b1 @ [GetUnionType (getAttributes u) ?S] else ?b1 @ [SetLostTypeAttributes]"
  from cm have kb: "kindBranch u ?byKind ?hu ''class'' \<noteq> None" "kindBranch u ?byKind ?hu ''map'' \<noteq> None"
    by (simp_all add: kindBranch_None_iff)
  show "replaceUnion env u builder forwardingRef debug =
          Inl (AssertionFailed ''Can't have both class and map in a transformed union'')
        \<or> replaceUnion env u builder forwardingRef debug = Inl DefinedValueExpected"
  proof (cases "transformerForString env u ?byKind ?hu (None, ?b2)")
    case (Inl e)
    from transformerForString_Inl [OF Inl covers_reconstitutedMembersByKind]
    have "e = DefinedValueExpected" by simp
    with Inl ne have "replaceUnion env u builder forwardingRef debug = Inl DefinedValueExpected"
      by (simp add: replaceUnion_def replaceUnion_transformer_eq andThen_def Let_def)
    then show ?thesis ..
  next
    case (Inr x)
    obtain trString mst b4 where "x = (trString, (mst, b4))" by (cases x) auto
    with Inr ne kb have "replaceUnion env u builder forwardingRef debug =
          Inl (AssertionFailed ''Can't have both class and map in a transformed union'')"
      by (simp add: replaceUnion_def replaceUnion_transformer_eq andThen_def Let_def)
    then show ?thesis ..
  qed
next
  assume "\<not> isUnionType t \<and> \<not> isArrayType t \<and> \<not> isEnumType t \<and>
        \<not> isPrimitiveStringTypeKind env (kind t)"
  then show "replace env ctx [t] builder forwardingRef =
          Inl (Panic (''Cannot make transformation for type '' @ kind t))"
    by (simp add: replace_def defined_def iterableFirst_def andThen_def)
next
  assume "\<not> isUnionType t \<and> \<not> isArrayType t \<and> \<not> isEnumType t \<and>
        isPrimitiveStringTypeKind env (kind t)"
  then show "replace env ctx [t] builder forwardingRef =
          Inr (replaceIntegerString env t builder forwardingRef (debugPrintReconstitution ctx))"
    by (simp add: replace_def defined_def iterableFirst_def andThen_def)
next
  show "replace env ctx [UnionType ref attrs ms] builder forwardingRef =
        replaceUnion env (UnionType ref attrs ms) builder forwardingRef
          (debugPrintTransformations ctx)"
    by (simp add: replace_def defined_def iterableFirst_def andThen_def)
qed

theorem fatal_invariant_violations_witness:
  "replaceUnion exampleCollaborators (UnionType 10 [] []) [] 7 False =
     Inl (AssertionFailed ''We can't have empty unions'')
   \<and> findMember (UnionType 10 ([] :: ExampleAttribute list) [ClassType 11 [], MapType 12 []]) ''class''
       = Some (ClassType 11 [])
   \<and> findMember (UnionType 10 ([] :: ExampleAttribute list) [ClassType 11 [], MapType 12 []]) ''map''
       = Some (MapType 12 [])
   \<and> replaceUnion exampleCollaborators (UnionType 10 [] [ClassType 11 [], MapType 12 []]) [] 7 False =
       Inl (AssertionFailed ''Can't have both class and map in a transformed union'')
   \<and> replace exampleCollaborators exampleContext [PrimitiveType 11 ''integer'' []] [] 7 =
       Inl (Panic ''Cannot make transformation for type integer'')
   \<and> replace exampleCollaborators exampleContext [ClassType 11 []] [] 7 =
       Inl (Panic ''Cannot make transformation for type class'')
   \<and> replace exampleCollaborators exampleContext [PrimitiveType 12 ''time'' [Description ''at'']] [] 7 =
       Inr (7, [GetStringType [] StringTypes_unrestricted None,
                ReconstituteTypeAttributes [Description ''at''],
                GetPrimitiveType ''integer'' (Some [Description ''at'']) None,
                GetStringType
                  [TransformationAttribute
                     (Transformation 1002
                        (DecodingTransformer 1000 (Some (ParseStringTransformer 1000 None))))]
                  StringTypes_unrestricted (Some 7)])"
proof -
  have a: "members (UnionType 10 ([] :: ExampleAttribute list) []) = []" by simp
  have b: "findMember (UnionType 10 ([] :: ExampleAttribute list) [ClassType 11 [], MapType 12 []]) ''class''
             = Some (ClassType 11 [])"
      "findMember (UnionType 10 ([] :: ExampleAttribute list) [ClassType 11 [], MapType 12 []]) ''map''
             = Some (MapType 12 [])"
    by (simp_all add: findMember_def)
  have c: "\<not> isUnionType (PrimitiveType 11 ''integer'' ([] :: ExampleAttribute list)) \<and>
           \<not> isArrayType (PrimitiveType 11 ''integer'' ([] :: ExampleAttribute list)) \<and>
           \<not> isEnumType (PrimitiveType 11 ''integer'' ([] :: ExampleAttribute list)) \<and>
           \<not> isPrimitiveStringTypeKind exampleCollaborators
                (kind (PrimitiveType 11 ''integer'' ([] :: ExampleAttribute list)))"
    by (simp add: exampleCollaborators_def)
  have d: "replaceUnion exampleCollaborators (UnionType 10 [] [ClassType 11 [], MapType 12 []]) [] 7 False
            \<noteq> Inl DefinedValueExpected"
    by (simp add: run_defs)
  have e: "replace exampleCollaborators exampleContext [ClassType 11 []] [] 7 =
       Inl (Panic ''Cannot make transformation for type class'')"
    by (simp add: run_defs)
  have f: "\<not> isUnionType (PrimitiveType 12 ''time'' [Description ''at'']) \<and>
           \<not> isArrayType (PrimitiveType 12 ''time'' [Description ''at'']) \<and>
           \<not> isEnumType (PrimitiveType 12 ''time'' [Description ''at'']) \<and>
           isPrimitiveStringTypeKind exampleCollaborators
                (kind (PrimitiveType 12 ''time'' [Description ''at'']))"
    by (simp add: exampleCollaborators_def)
  note t3 = fatal_invariant_violations
    [of "UnionType 10 [] []" exampleCollaborators "[]" 7 False
        "PrimitiveType 12 ''time'' [Description ''at'']" exampleContext]
  from t3 f have g:
    "replace exampleCollaborators exampleContext [PrimitiveType 12 ''time'' [Description ''at'']] [] 7 =
       Inr (replaceIntegerString exampleCollaborators (PrimitiveType 12 ''time'' [Description ''at''])
              [] 7 (debugPrintReconstitution exampleContext))"
    by blast
  have h: "replaceIntegerString exampleCollaborators (PrimitiveType 12 ''time'' [Description ''at''])
              [] 7 (debugPrintReconstitution exampleContext) =
       (7, [GetStringType [] StringTypes_unrestricted None,
                ReconstituteTypeAttributes [Description ''at''],
                GetPrimitiveType ''integer'' (Some [Description ''at'']) None,
                GetStringType
                  [TransformationAttribute
                     (Transformation 1002
                        (DecodingTransformer 1000 (Some (ParseStringTransformer 1000 None))))]
                  StringTypes_unrestricted (Some 7)])"
    by (simp add: run_defs)
  note t1 = fatal_invariant_violations
    [of "UnionType 10 [] []" exampleCollaborators "[]" 7 False
        "PrimitiveType 11 ''integer'' []" exampleContext]
  note t2 = fatal_invariant_violations
    [of "UnionType 10 [] [ClassType 11 [], MapType 12 []]" exampleCollaborators "[]" 7 False
        "PrimitiveType 11 ''integer'' []" exampleContext]
  from t1 a c have
    "replaceUnion exampleCollaborators (UnionType 10 [] []) [] 7 False =
       Inl (AssertionFailed ''We can't have empty unions'')"
    "replace exampleCollaborators exampleContext [PrimitiveType 11 ''integer'' []] [] 7 =
       Inl (Panic ''Cannot make transformation for type integer'')"
    by simp_all
  moreover from t2 b d have
    "replaceUnion exampleCollaborators (UnionType 10 [] [ClassType 11 [], MapType 12 []]) [] 7 False =
       Inl (AssertionFailed ''Can't have both class and map in a transformed union'')"
    by simp
  ultimately show ?thesis using b e g h by simp
qed

subsection \<open>Unions: the string branch\<close>




subsection \<open>Unions: the members\<close>

text \<open>
  Claim C5. The first calls \<^verbatim>\<open>replaceUnion\<close> makes on the builder are one call for each
  member, in the order of the members. For a member whose kind is a primitive string kind
  with a target kind, the call reconstitutes the member of the union that has the target
  kind if there is one, and asks for a primitive of the target kind (without attributes)
  otherwise; for every other member the call reconstitutes the member itself. The handle
  returned to the call of a member is entered into the map of the reconstituted members
  under the kind of that member (when no two members have the same kind, the map is the
  list of these pairs). The attributes of the redirected members, combined in their order
  onto the empty attributes, are the additional attributes, and the final \<^verbatim>\<open>any\<close> type
  is asked for with the Transformation's attributes combined with them.
\<close>

theorem replaceUnion_member_redirection:
  assumes "replaceUnion env u builder forwardingRef debug = Inr (r, builder')"
  shows "take (length builder + length (members u)) builder' =
           builder @ map (memberCall env u) (members u)
   \<and> (\<forall>t\<in>set (members u).
         if isRedirected env t
         then \<exists>k. targetTypeKindForTransformedStringTypeKind env (kind t) = Some k \<and>
                  memberCall env u t =
                    (case findMember u k of
                       Some m \<Rightarrow> ReconstituteType m
                     | None \<Rightarrow> GetPrimitiveType k None None)
         else memberCall env u t = ReconstituteType t)
   \<and> reconstitutedMembersByKind env u builder =
         foldl (\<lambda>m (k, h). mapSet m k h) []
           (zip (map kind (members u)) (memberRefs env u builder (members u)))
   \<and> (distinct (map kind (members u)) \<longrightarrow>
         reconstitutedMembersByKind env u builder =
           zip (map kind (members u)) (memberRefs env u builder (members u)))
   \<and> (\<forall>i<length (members u).
         memberRefs env u builder (members u) ! i =
           typeRefFor env (builder @ map (memberCall env u) (take i (members u)))
             (memberCall env u (members u ! i)))
   \<and> (\<exists>target tr.
         replaceUnion_transformer env u builder =
           Inr (target, tr,
                foldl (\<lambda>acc t. combineTypeAttributes env ''union'' acc (getAttributes t))
                  (emptyTypeAttributes env) (filter (isRedirected env) (members u)),
                butlast builder') \<and>
         last builder' =
           GetPrimitiveType ''any''
             (Some (combineTypeAttributes env ''union''
                      (makeAttributes env (Transformation target tr))
                      (foldl (\<lambda>acc t. combineTypeAttributes env ''union'' acc (getAttributes t))
                         (emptyTypeAttributes env) (filter (isRedirected env) (members u)))))
             (Some forwardingRef))"
proof -
  from replaceUnion_builder [OF assms] have
    a: "take (length builder + length (members u)) builder' =
           builder @ map (memberCall env u) (members u)"
    by auto
  have b: "\<forall>t\<in>set (members u).
         if isRedirected env t
         then \<exists>k. targetTypeKindForTransformedStringTypeKind env (kind t) = Some k \<and>
                  memberCall env u t =
                    (case findMember u k of
                       Some m \<Rightarrow> ReconstituteType m
                     | None \<Rightarrow> GetPrimitiveType k None None)
         else memberCall env u t = ReconstituteType t"
    using memberCall_redirected [of env _ u] memberCall_unchanged [of env _ u] by auto
  have c: "reconstitutedMembersByKind env u builder =
         foldl (\<lambda>m (k, h). mapSet m k h) []
           (zip (map kind (members u)) (memberRefs env u builder (members u)))"
    by (simp add: reconstitutedMembersByKind_def reconstituteMembers_eq)
  have d: "distinct (map kind (members u)) \<longrightarrow>
         reconstitutedMembersByKind env u builder =
           zip (map kind (members u)) (memberRefs env u builder (members u))"
  proof
    assume "distinct (map kind (members u))"
    then have "distinct (map fst (zip (map kind (members u)) (memberRefs env u builder (members u))))"
      by (simp add: length_memberRefs)
    from foldl_mapSet_distinct [OF this, of "[]"] c
    show "reconstitutedMembersByKind env u builder =
           zip (map kind (members u)) (memberRefs env u builder (members u))"
      by simp
  qed
  have e: "\<forall>i<length (members u).
         memberRefs env u builder (members u) ! i =
           typeRefFor env (builder @ map (memberCall env u) (take i (members u)))
             (memberCall env u (members u ! i))"
    by (simp add: memberRefs_nth)
  from replaceUnion_Inr [OF assms]
  have f: "\<exists>target tr.
         replaceUnion_transformer env u builder =
           Inr (target, tr,
                foldl (\<lambda>acc t. combineTypeAttributes env ''union'' acc (getAttributes t))
                  (emptyTypeAttributes env) (filter (isRedirected env) (members u)),
                butlast builder') \<and>
         last builder' =
           GetPrimitiveType ''any''
             (Some (combineTypeAttributes env ''union''
                      (makeAttributes env (Transformation target tr))
                      (foldl (\<lambda>acc t. combineTypeAttributes env ''union'' acc (getAttributes t))
                         (emptyTypeAttributes env) (filter (isRedirected env) (members u)))))
             (Some forwardingRef)"
    by (auto simp: butlast_append additionalAttributesOf_eq)
  from a b c d e f show ?thesis by blast
qed


text \<open>
  An integer-as-string beside an integer is redirected to the reconstitution of the
  integer; beside a double, to a new integer primitive. Its description is carried to the
  final type in both cases.
\<close>

theorem replaceUnion_member_redirection_witness:
  "isRedirected exampleCollaborators (PrimitiveType 12 ''integer-string'' [Description ''is''])
   \<and> \<not> isRedirected exampleCollaborators (PrimitiveType 11 ''integer'' [Description ''i''])
   \<and> replaceUnion exampleCollaborators
        (UnionType 10 [Description ''u'']
           [PrimitiveType 11 ''integer'' [Description ''i''],
            PrimitiveType 12 ''integer-string'' [Description ''is'']])
        [] 7 False =
      Inr (7, [ReconstituteType (PrimitiveType 11 ''integer'' [Description ''i'']),
               ReconstituteType (PrimitiveType 11 ''integer'' [Description ''i'']),
               SetLostTypeAttributes,
               GetPrimitiveType ''any'' None None,
               GetPrimitiveType ''any''
                 (Some [TransformationAttribute
                          (Transformation 11
                             (DecodingChoiceTransformer 1003 None
                                (Some (DecodingTransformer 11 None)) None None
                                (Some (DecodingTransformer 11 None)) None None)),
                        Description ''is''])
                 (Some 7)])
   \<and> reconstitutedMembersByKind exampleCollaborators
        (UnionType 10 [Description ''u'']
           [PrimitiveType 11 ''integer'' [Description ''i''],
            PrimitiveType 12 ''integer-string'' [Description ''is'']]) []
      = [(''integer'', 11), (''integer-string'', 11)]
   \<and> replaceUnion exampleCollaborators
        (UnionType 10 [Description ''u'']
           [PrimitiveType 11 ''double'' [Description ''d''],
            PrimitiveType 12 ''integer-string'' [Description ''is'']])
        [] 7 False =
      Inr (7, [ReconstituteType (PrimitiveType 11 ''double'' [Description ''d'']),
               GetPrimitiveType ''integer'' None None,
               GetUnionType [Description ''u''] [11, 1001],
               GetPrimitiveType ''any'' None None,
               GetPrimitiveType ''any''
                 (Some [TransformationAttribute
                          (Transformation 1002
                             (DecodingChoiceTransformer 1003 None None
                                (Some (DecodingTransformer 11 (Some (UnionInstantiationTransformer 11))))
                                None
                                (Some (DecodingTransformer 1001
                                         (Some (UnionInstantiationTransformer 1001))))
                                None None)),
                        Description ''is''])
                 (Some 7)])
   \<and> reconstitutedMembersByKind exampleCollaborators
        (UnionType 10 [Description ''u'']
           [PrimitiveType 11 ''double'' [Description ''d''],
            PrimitiveType 12 ''integer-string'' [Description ''is'']]) []
      = [(''double'', 11), (''integer-string'', 1001)]"
proof -
  let ?u1 = "UnionType 10 [Description ''u'']
           [PrimitiveType 11 ''integer'' [Description ''i''],
            PrimitiveType 12 ''integer-string'' [Description ''is'']]"
  let ?u2 = "UnionType 10 [Description ''u'']
           [PrimitiveType 11 ''double'' [Description ''d''],
            PrimitiveType 12 ''integer-string'' [Description ''is'']]"
  have r1: "isRedirected exampleCollaborators (PrimitiveType 12 ''integer-string'' [Description ''is''])"
    by (simp add: isRedirected_def exampleCollaborators_def)
  have r2: "\<not> isRedirected exampleCollaborators (PrimitiveType 11 ''integer'' [Description ''i''])"
    by (simp add: isRedirected_def exampleCollaborators_def)
  have run1: "replaceUnion exampleCollaborators ?u1 [] 7 False =
      Inr (7, [ReconstituteType (PrimitiveType 11 ''integer'' [Description ''i'']),
               ReconstituteType (PrimitiveType 11 ''integer'' [Description ''i'']),
               SetLostTypeAttributes,
               GetPrimitiveType ''any'' None None,
               GetPrimitiveType ''any''
                 (Some [TransformationAttribute
                          (Transformation 11
                             (DecodingChoiceTransformer 1003 None
                                (Some (DecodingTransformer 11 None)) None None
                                (Some (DecodingTransformer 11 None)) None None)),
                        Description ''is''])
                 (Some 7)])"
    by (simp add: run_defs)
  have run2: "replaceUnion exampleCollaborators ?u2 [] 7 False =
      Inr (7, [ReconstituteType (PrimitiveType 11 ''double'' [Description ''d'']),
               GetPrimitiveType ''integer'' None None,
               GetUnionType [Description ''u''] [11, 1001],
               GetPrimitiveType ''any'' None None,
               GetPrimitiveType ''any''
                 (Some [TransformationAttribute
                          (Transformation 1002
                             (DecodingChoiceTransformer 1003 None None
                                (Some (DecodingTransformer 11 (Some (UnionInstantiationTransformer 11))))
                                None
                                (Some (DecodingTransformer 1001
                                         (Some (UnionInstantiationTransformer 1001))))
                                None None)),
                        Description ''is''])
                 (Some 7)])"
    by (simp add: run_defs)
  have d1: "distinct (map kind (members ?u1))" by simp
  have d2: "distinct (map kind (members ?u2))" by simp
  have m1: "memberRefs exampleCollaborators ?u1 [] (members ?u1) = [11, 11]"
    by (simp add: memberCall_def findMember_def exampleCollaborators_def)
  have m2: "memberRefs exampleCollaborators ?u2 [] (members ?u2) = [11, 1001]"
    by (simp add: memberCall_def findMember_def exampleCollaborators_def)
  from replaceUnion_member_redirection [OF run1] d1
  have "reconstitutedMembersByKind exampleCollaborators ?u1 [] =
          zip (map kind (members ?u1)) (memberRefs exampleCollaborators ?u1 [] (members ?u1))"
    by blast
  then have b1: "reconstitutedMembersByKind exampleCollaborators ?u1 [] =
                   [(''integer'', 11), (''integer-string'', 11)]"
    unfolding m1 by simp
  from replaceUnion_member_redirection [OF run2] d2
  have "reconstitutedMembersByKind exampleCollaborators ?u2 [] =
          zip (map kind (members ?u2)) (memberRefs exampleCollaborators ?u2 [] (members ?u2))"
    by blast
  then have b2: "reconstitutedMembersByKind exampleCollaborators ?u2 [] =
                   [(''double'', 11), (''integer-string'', 1001)]"
    unfolding m2 by simp
  from r1 r2 run1 run2 b1 b2 show ?thesis by blast
qed

subsection \<open>Unions: the order of the string alternatives\<close>

text \<open>
  Claim C9 says that in the Choice of the string branch the plain-string alternative is
  never before the case matchers and the ParseString alternatives. The source builds the
  alternatives in the iteration order of the string-like members. For the union of a
  plain string and an enumeration, in this order, the plain-string alternative is the
  first one.
\<close>

theorem plain_string_alternative_first_counterexample:
  "replaceUnion_transformer exampleCollaborators
     (UnionType 10 [Description ''u'']
        [PrimitiveType 11 ''string'' [], EnumType 12 [] [''A'', ''B'']]) [] =
     Inr (1002,
          DecodingChoiceTransformer 1004 None None None None
            (Some (DecodingTransformer 1003
                     (Some (ChoiceTransformer 1003
                              [UnionInstantiationTransformer 11,
                               ChoiceTransformer 1003
                                 [StringMatchTransformer 1003
                                    (StringProducerTransformer 1003
                                       (Some (UnionInstantiationTransformer 12)) ''A'') ''A'',
                                  StringMatchTransformer 1003
                                    (StringProducerTransformer 1003
                                       (Some (UnionInstantiationTransformer 12)) ''B'') ''B'']]))))
            None None,
          [],
          [ReconstituteType (PrimitiveType 11 ''string'' []),
           ReconstituteType (EnumType 12 [] [''A'', ''B'']),
           GetUnionType [Description ''u''] [11, 12],
           GetStringType [] StringTypes_unrestricted None,
           GetPrimitiveType ''any'' None None])
   \<and> \<not> plainStringAlternativeLast
         [UnionInstantiationTransformer 11,
          ChoiceTransformer 1003
            [StringMatchTransformer 1003
               (StringProducerTransformer 1003 (Some (UnionInstantiationTransformer 12)) ''A'') ''A'',
             StringMatchTransformer 1003
               (StringProducerTransformer 1003 (Some (UnionInstantiationTransformer 12)) ''B'') ''B'']]"
  by (simp add: run_defs)

text \<open>
  Claim C9, as amended. When \<^verbatim>\<open>replaceUnion\<close> returns for a union with more than one
  string-like member, the alternatives of the Choice of the string branch stand in the
  iteration order of the string-like members: there are as many alternatives as
  string-like members, and the alternative at a position is the plain-string alternative
  if and only if the member at that position is the plain string. So the plain-string
  alternative is last exactly when no string-like member but the last one is the plain
  string.
\<close>

theorem replaceUnion_string_alternatives_order:
  assumes "replaceUnion env u builder forwardingRef debug = Inr (r, builder')"
    and "1 < length (stringTypeMembers env u)"
  shows "\<exists>target anyType trNull trInteger trDouble trBool trArray trObject addl stringType alts.
     replaceUnion_transformer env u builder =
       Inr (target,
            DecodingChoiceTransformer anyType trNull trInteger trDouble trBool
              (Some (DecodingTransformer stringType (Some (ChoiceTransformer stringType alts))))
              trArray trObject,
            addl, butlast builder') \<and>
     length alts = length (stringTypeMembers env u) \<and>
     (\<forall>i<length alts.
        isPlainStringAlternative (alts ! i) \<longleftrightarrow> kind (stringTypeMembers env u ! i) = ''string'') \<and>
     (plainStringAlternativeLast alts \<longleftrightarrow>
        (\<forall>i. Suc i < length (stringTypeMembers env u) \<longrightarrow>
             kind (stringTypeMembers env u ! i) \<noteq> ''string''))"
proof -
  let ?byKind = "reconstitutedMembersByKind env u builder"
  let ?S = "reconstitutedMemberSet env u builder"
  let ?hu = "1 < length ?S"
  let ?b1 = "builderAfterMembers env u builder"
  let ?b2 = "if ?hu then ?b1 @ [GetUnionType (getAttributes u) ?S] else ?b1 @ [SetLostTypeAttributes]"
  from replaceUnion_Inr [OF assms(1)] obtain trString mst b4 where
    ts: "transformerForString env u ?byKind ?hu (None, ?b2) = Inr (trString, (mst, b4))"
    and rt0: "\<exists>target anyType trNull trInteger trDouble trBool trArray trObject addl.
       replaceUnion_transformer env u builder =
       Inr (target,
            DecodingChoiceTransformer anyType trNull trInteger trDouble trBool trString trArray
              trObject,
            addl, butlast builder')"
    by (auto simp: butlast_append)
  from transformerForString_many_Inr [OF assms(2) ts] obtain stringType alts where
    st: "trString = Some (DecodingTransformer stringType (Some (ChoiceTransformer stringType alts)))"
    and la: "list_all2 (isAlternativeFor ?byKind ?hu stringType) (stringTypeMembers env u) alts"
    by blast
  from rt0 st obtain target anyType trNull trInteger trDouble trBool trArray trObject addl
    where rt: "replaceUnion_transformer env u builder =
       Inr (target,
            DecodingChoiceTransformer anyType trNull trInteger trDouble trBool
              (Some (DecodingTransformer stringType (Some (ChoiceTransformer stringType alts))))
              trArray trObject,
            addl, butlast builder')"
    by blast
  from la have len: "length alts = length (stringTypeMembers env u)"
    by (simp add: list_all2_lengthD)
  have nth: "\<forall>i<length alts.
        isPlainStringAlternative (alts ! i) \<longleftrightarrow> kind (stringTypeMembers env u ! i) = ''string''"
  proof (intro allI impI)
    fix i assume "i < length alts"
    with la len have "isAlternativeFor (reconstitutedMembersByKind env u builder)
                (1 < length (reconstitutedMemberSet env u builder)) stringType
                (stringTypeMembers env u ! i) (alts ! i)"
      by (simp add: list_all2_nthD2)
    then show "isPlainStringAlternative (alts ! i) \<longleftrightarrow> kind (stringTypeMembers env u ! i) = ''string''"
      by (rule isAlternativeFor_plain)
  qed
  have last: "plainStringAlternativeLast alts \<longleftrightarrow>
        (\<forall>i. Suc i < length (stringTypeMembers env u) \<longrightarrow>
             kind (stringTypeMembers env u ! i) \<noteq> ''string'')"
    unfolding plainStringAlternativeLast_iff using nth len
    by (metis Suc_lessD)
  from rt len nth last show ?thesis by blast
qed


text \<open>The plain string before the enumeration, and after it.\<close>

theorem replaceUnion_string_alternatives_order_witness:
  "1 < length (stringTypeMembers exampleCollaborators
                 (UnionType 10 [Description ''u'']
                    [PrimitiveType 11 ''string'' [], EnumType 12 [] [''A'', ''B'']]))
   \<and> replaceUnion exampleCollaborators
        (UnionType 10 [Description ''u'']
           [PrimitiveType 11 ''string'' [], EnumType 12 [] [''A'', ''B'']]) [] 7 False
       \<noteq> Inl DefinedValueExpected
   \<and> \<not> plainStringAlternativeLast
         [UnionInstantiationTransformer 11,
          ChoiceTransformer 1003
            [StringMatchTransformer 1003
               (StringProducerTransformer 1003 (Some (UnionInstantiationTransformer 12)) ''A'') ''A'',
             StringMatchTransformer 1003
               (StringProducerTransformer 1003 (Some (UnionInstantiationTransformer 12)) ''B'') ''B'']]
   \<and> 1 < length (stringTypeMembers exampleCollaborators
                 (UnionType 10 [Description ''u'']
                    [EnumType 12 [] [''A'', ''B''], PrimitiveType 11 ''string'' []]))
   \<and> replaceUnion exampleCollaborators
        (UnionType 10 [Description ''u'']
           [EnumType 12 [] [''A'', ''B''], PrimitiveType 11 ''string'' []]) [] 7 False
       \<noteq> Inl DefinedValueExpected
   \<and> plainStringAlternativeLast
         [ChoiceTransformer 1003
            [StringMatchTransformer 1003
               (StringProducerTransformer 1003 (Some (UnionInstantiationTransformer 12)) ''A'') ''A'',
             StringMatchTransformer 1003
               (StringProducerTransformer 1003 (Some (UnionInstantiationTransformer 12)) ''B'') ''B''],
          UnionInstantiationTransformer 11]"
proof -
  let ?first = "UnionType 10 [Description ''u'']
                  [PrimitiveType 11 ''string'' [], EnumType 12 [] [''A'', ''B'']]"
  let ?last = "UnionType 10 [Description ''u'']
                 [EnumType 12 [] [''A'', ''B''], PrimitiveType 11 ''string'' []]"
  let ?enumAlt = "ChoiceTransformer 1003
            [StringMatchTransformer 1003
               (StringProducerTransformer 1003 (Some (UnionInstantiationTransformer 12)) ''A'') ''A'',
             StringMatchTransformer 1003
               (StringProducerTransformer 1003 (Some (UnionInstantiationTransformer 12)) ''B'') ''B'']"
  have sf: "stringTypeMembers exampleCollaborators ?first =
              [PrimitiveType 11 ''string'' [], EnumType 12 [] [''A'', ''B'']]"
    by (simp add: stringTypeMembers_def exampleCollaborators_def)
  have sl: "stringTypeMembers exampleCollaborators ?last =
              [EnumType 12 [] [''A'', ''B''], PrimitiveType 11 ''string'' []]"
    by (simp add: stringTypeMembers_def exampleCollaborators_def)
  have lf: "1 < length (stringTypeMembers exampleCollaborators ?first)" by (simp add: sf)
  have ll: "1 < length (stringTypeMembers exampleCollaborators ?last)" by (simp add: sl)
  have "\<exists>b. replaceUnion exampleCollaborators ?first [] 7 False = Inr (7, b)"
    by (simp add: run_defs)
  then obtain bf where rf: "replaceUnion exampleCollaborators ?first [] 7 False = Inr (7, bf)" ..
  have "\<exists>b. replaceUnion exampleCollaborators ?last [] 7 False = Inr (7, b)"
    by (simp add: run_defs)
  then obtain bl where rl: "replaceUnion exampleCollaborators ?last [] 7 False = Inr (7, bl)" ..
  have "\<exists>target anyType addl b. replaceUnion_transformer exampleCollaborators ?first [] =
      Inr (target,
           DecodingChoiceTransformer anyType None None None None
             (Some (DecodingTransformer 1003
                      (Some (ChoiceTransformer 1003 [UnionInstantiationTransformer 11, ?enumAlt]))))
             None None, addl, b)"
    by (simp add: run_defs)
  with replaceUnion_string_alternatives_order [OF rf lf]
  have "plainStringAlternativeLast [UnionInstantiationTransformer 11, ?enumAlt] \<longleftrightarrow>
        (\<forall>i. Suc i < length (stringTypeMembers exampleCollaborators ?first) \<longrightarrow>
             kind (stringTypeMembers exampleCollaborators ?first ! i) \<noteq> ''string'')"
    by force
  then have nf: "\<not> plainStringAlternativeLast [UnionInstantiationTransformer 11, ?enumAlt]"
    unfolding sf by auto
  have "\<exists>target anyType addl b. replaceUnion_transformer exampleCollaborators ?last [] =
      Inr (target,
           DecodingChoiceTransformer anyType None None None None
             (Some (DecodingTransformer 1003
                      (Some (ChoiceTransformer 1003 [?enumAlt, UnionInstantiationTransformer 11]))))
             None None, addl, b)"
    by (simp add: run_defs)
  with replaceUnion_string_alternatives_order [OF rl ll]
  have "plainStringAlternativeLast [?enumAlt, UnionInstantiationTransformer 11] \<longleftrightarrow>
        (\<forall>i. Suc i < length (stringTypeMembers exampleCollaborators ?last) \<longrightarrow>
             kind (stringTypeMembers exampleCollaborators ?last ! i) \<noteq> ''string'')"
    by force
  then have pl: "plainStringAlternativeLast [?enumAlt, UnionInstantiationTransformer 11]"
    unfolding sl by simp
  from rf have "replaceUnion exampleCollaborators ?first [] 7 False \<noteq> Inl DefinedValueExpected"
    by simp
  moreover from rl have "replaceUnion exampleCollaborators ?last [] 7 False \<noteq> Inl DefinedValueExpected"
    by simp
  ultimately show ?thesis using lf ll nf pl by blast
qed

subsection \<open>Unions: where a UnionInstantiate occurs\<close>

text \<open>
  Claim C10 says that, when the union collapses to a single member, every branch of the
  DecodingChoice is a Decode without continuation. The string branch of a union with more
  than one string-like member is built without regard to the collapse. Take a date and a
  time that the builder both reconstitutes to the plain string type of the new graph: the
  set of reconstituted members has one element, and the string branch is a Decode
  continued by a Choice.
\<close>

theorem collapsed_string_branch_counterexample:
  "reconstitutedMemberSet mappedCollaborators
     (UnionType 10 [Description ''u'']
        [PrimitiveType 11 ''date'' [], PrimitiveType 12 ''time'' []]) [] = [50]
   \<and> replaceUnion_transformer mappedCollaborators
     (UnionType 10 [Description ''u'']
        [PrimitiveType 11 ''date'' [], PrimitiveType 12 ''time'' []]) [] =
     Inr (50,
          DecodingChoiceTransformer 1004 None None None None
            (Some (DecodingTransformer 1003
                     (Some (ChoiceTransformer 1003
                              [ParseStringTransformer 1003 None,
                               ParseStringTransformer 1003 None]))))
            None None,
          [],
          [ReconstituteType (PrimitiveType 11 ''date'' []),
           ReconstituteType (PrimitiveType 12 ''time'' []),
           SetLostTypeAttributes,
           GetStringType [] StringTypes_unrestricted None,
           GetPrimitiveType ''any'' None None])
   \<and> \<not> isBareDecode
         (DecodingTransformer 1003
            (Some (ChoiceTransformer 1003
                     [ParseStringTransformer 1003 None, ParseStringTransformer 1003 None])))"
  by (simp add: local_defs run_defs)

text \<open>
  Claim C10, as amended. When \<^verbatim>\<open>replaceUnion\<close> returns: a UnionInstantiate occurs in
  the transformer only if the set of reconstituted members has more than one element; it
  does occur then as soon as some member has a kind the DecodingChoice dispatches on or is
  string-like (an enumeration without cases apart). When the set has one element, each of
  the null, integer, double, bool, array and object branches is absent or a Decode
  without continuation; so is the string branch with at most one string-like member;
  with more than one, the string branch is a Decode continued by a Choice with one
  alternative for each string-like member, none of which holds a UnionInstantiate.
\<close>

theorem replaceUnion_union_instantiation:
  assumes "replaceUnion env u builder forwardingRef debug = Inr (r, builder')"
  shows "\<exists>target anyType trNull trInteger trDouble trBool trString trArray trObject addl.
     replaceUnion_transformer env u builder =
       Inr (target,
            DecodingChoiceTransformer anyType trNull trInteger trDouble trBool trString trArray
              trObject,
            addl, butlast builder') \<and>
     (let haveUnion = (1 < length (reconstitutedMemberSet env u builder));
          stringTypes = stringTypeMembers env u;
          transformer = DecodingChoiceTransformer anyType trNull trInteger trDouble trBool
                          trString trArray trObject
      in (containsUnionInstantiation transformer \<longrightarrow> haveUnion) \<and>
         (haveUnion \<and> (\<exists>m\<in>set (members u). isDispatched env m) \<longrightarrow>
            containsUnionInstantiation transformer) \<and>
         (\<not> haveUnion \<longrightarrow>
            list_all (\<lambda>branch. branch = None \<or> (\<exists>t. branch = Some t \<and> isBareDecode t))
              [trNull, trInteger, trDouble, trBool, trArray, trObject]) \<and>
         (\<not> haveUnion \<and> length stringTypes \<le> 1 \<longrightarrow>
            trString = None \<or> (\<exists>t. trString = Some t \<and> isBareDecode t)) \<and>
         (\<not> haveUnion \<and> 1 < length stringTypes \<longrightarrow>
            (\<exists>stringType alts.
               trString = Some (DecodingTransformer stringType
                                  (Some (ChoiceTransformer stringType alts))) \<and>
               length alts = length stringTypes \<and>
               \<not> list_ex containsUnionInstantiation alts)))"
proof -
  let ?byKind = "reconstitutedMembersByKind env u builder"
  let ?S = "reconstitutedMemberSet env u builder"
  let ?hu = "1 < length ?S"
  let ?b1 = "builderAfterMembers env u builder"
  let ?b2 = "if ?hu then ?b1 @ [GetUnionType (getAttributes u) ?S] else ?b1 @ [SetLostTypeAttributes]"
  let ?kb = "kindBranch u ?byKind ?hu"
  let ?ob = "if ?kb ''class'' \<noteq> None then ?kb ''class'' else ?kb ''map''"
  let ?c = "\<lambda>k. case k of None \<Rightarrow> False | Some t \<Rightarrow> containsUnionInstantiation t"
  from replaceUnion_Inr [OF assms] obtain trString mst b4 where
    ts: "transformerForString env u ?byKind ?hu (None, ?b2) = Inr (trString, (mst, b4))"
    and rt: "replaceUnion_transformer env u builder =
       Inr (if ?hu then typeRefFor env ?b1 (GetUnionType (getAttributes u) ?S) else hd ?S,
            DecodingChoiceTransformer (typeRefFor env b4 (GetPrimitiveType ''any'' None None))
              (?kb ''null'') (?kb ''integer'') (?kb ''double'') (?kb ''bool'') trString
              (?kb ''array'') ?ob,
            additionalAttributesOf env u builder, butlast builder')"
    by (auto simp: butlast_append)
  let ?tr = "DecodingChoiceTransformer (typeRefFor env b4 (GetPrimitiveType ''any'' None None))
              (?kb ''null'') (?kb ''integer'') (?kb ''double'') (?kb ''bool'') trString
              (?kb ''array'') ?ob"
  have str_small: "length (stringTypeMembers env u) \<le> 1 \<Longrightarrow>
      trString = None \<or> (\<exists>t\<in>set (stringTypeMembers env u). trString = ?kb (kind t) \<and> ?kb (kind t) \<noteq> None)"
  proof -
    assume "length (stringTypeMembers env u) \<le> 1"
    then have "stringTypeMembers env u = [] \<or> (\<exists>t. stringTypeMembers env u = [t])"
      by (cases "stringTypeMembers env u") auto
    then show ?thesis
    proof
      assume "stringTypeMembers env u = []"
      from transformerForString_none [OF this, of ?byKind ?hu "(None, ?b2)"] ts show ?thesis by simp
    next
      assume "\<exists>t. stringTypeMembers env u = [t]"
      then obtain t where t: "stringTypeMembers env u = [t]" ..
      then have "t \<in> set (members u)" using stringTypeMembers_subset [of env u] by auto
      from kindBranch_member [OF this, of env builder ?hu]
      have "?kb (kind t) \<noteq> None" by auto
      with transformerForString_one [OF t covers_reconstitutedMembersByKind, of env builder ?hu "(None, ?b2)"]
        ts t
      show ?thesis by auto
    qed
  qed
  have str_many: "1 < length (stringTypeMembers env u) \<Longrightarrow>
      \<exists>stringType alts.
         trString = Some (DecodingTransformer stringType (Some (ChoiceTransformer stringType alts))) \<and>
         list_all2 (isAlternativeFor ?byKind ?hu stringType) (stringTypeMembers env u) alts"
    using transformerForString_many_Inr [OF _ ts] by blast
  have c_str: "?c trString \<longrightarrow> ?hu"
  proof (cases "1 < length (stringTypeMembers env u)")
    case True
    from str_many [OF True] obtain stringType alts where
      st: "trString = Some (DecodingTransformer stringType (Some (ChoiceTransformer stringType alts)))"
      and la: "list_all2 (isAlternativeFor ?byKind ?hu stringType) (stringTypeMembers env u) alts"
      by blast
    show ?thesis
    proof
      assume "?c trString"
      with st obtain a where a: "a \<in> set alts" "containsUnionInstantiation a"
        by (auto simp: list_ex_iff)
      from a(1) obtain i where i: "i < length alts" "alts ! i = a" by (auto simp: in_set_conv_nth)
      with la have "isAlternativeFor ?byKind ?hu stringType (stringTypeMembers env u ! i) a"
        by (auto simp: list_all2_conv_all_nth)
      from isAlternativeFor_contains [OF this] a(2) show ?hu by simp
    qed
  next
    case False
    then have "length (stringTypeMembers env u) \<le> 1" by simp
    from str_small [OF this] show ?thesis
      using containsUnionInstantiation_kindBranch [of u ?byKind ?hu] by auto
  qed
  have only_if: "containsUnionInstantiation ?tr \<longrightarrow> ?hu"
    using c_str containsUnionInstantiation_kindBranch [of u ?byKind ?hu]
    by (auto split: if_splits)
  have "if": "?hu \<and> (\<exists>m\<in>set (members u). isDispatched env m) \<longrightarrow> containsUnionInstantiation ?tr"
  proof
    assume a: "?hu \<and> (\<exists>m\<in>set (members u). isDispatched env m)"
    then obtain m where m: "m \<in> set (members u)" "isDispatched env m" by blast
    from a have hu: ?hu by simp
    from kindBranch_member [OF m(1), of env builder ?hu] have km: "?kb (kind m) \<noteq> None" by auto
    have kc: "\<And>k. ?kb k \<noteq> None \<Longrightarrow> ?c (?kb k)"
      using containsUnionInstantiation_kindBranch [of u ?byKind ?hu] hu by simp
    consider (plain) "kind m = ''null'' \<or> kind m = ''integer'' \<or> kind m = ''double'' \<or>
                      kind m = ''bool'' \<or> kind m = ''array''"
      | (object) "kind m = ''class'' \<or> kind m = ''map''"
      | (stringlike) "isPrimitiveStringTypeKind env (kind m) \<or> kind m = ''enum''"
      using m(2) by (auto simp: isDispatched_def)
    then show "containsUnionInstantiation ?tr"
    proof cases
      case plain
      with km kc [of "kind m"] show ?thesis by auto
    next
      case object
      with km have ob: "?kb ''class'' \<noteq> None \<or> ?kb ''map'' \<noteq> None" by auto
      have "?c ?ob"
      proof (cases "?kb ''class'' \<noteq> None")
        case True
        with kc [of "''class''"] show ?thesis by simp
      next
        case False
        with ob have "?kb ''map'' \<noteq> None" by simp
        with False kc [of "''map''"] show ?thesis by simp
      qed
      then show ?thesis by simp
    next
      case stringlike
      with m(1) have ms: "m \<in> set (stringTypeMembers env u)" by (simp add: stringTypeMembers_def)
      have "?c trString"
      proof (cases "1 < length (stringTypeMembers env u)")
        case True
        from str_many [OF True] obtain stringType alts where
          st: "trString = Some (DecodingTransformer stringType (Some (ChoiceTransformer stringType alts)))"
          and la: "list_all2 (isAlternativeFor ?byKind ?hu stringType) (stringTypeMembers env u) alts"
          by blast
        from ms obtain i where i: "i < length (stringTypeMembers env u)"
          "stringTypeMembers env u ! i = m" by (auto simp: in_set_conv_nth)
        with la have ia: "isAlternativeFor ?byKind ?hu stringType m (alts ! i)"
          and il: "i < length alts"
          by (auto simp: list_all2_conv_all_nth)
        from m(2) have "isEnumType m \<longrightarrow> cases_of m \<noteq> []"
          by (auto simp: isDispatched_def split: if_splits)
        with isAlternativeFor_contains [OF ia] hu have "containsUnionInstantiation (alts ! i)"
          by simp
        with il have "list_ex containsUnionInstantiation alts"
          by (auto simp: list_ex_iff)
        with st show ?thesis by simp
      next
        case False
        then have le: "length (stringTypeMembers env u) \<le> 1" by simp
        from ms have "stringTypeMembers env u \<noteq> []" by auto
        with le ms have sm: "stringTypeMembers env u = [m]"
          by (cases "stringTypeMembers env u") auto
        from transformerForString_one [OF sm covers_reconstitutedMembersByKind] ts
        have "trString = ?kb (kind m)" by simp
        with km kc [of "kind m"] show ?thesis by simp
      qed
      then show ?thesis by simp
    qed
  qed
  have bare: "\<not> ?hu \<longrightarrow>
            list_all (\<lambda>branch. branch = None \<or> (\<exists>t. branch = Some t \<and> isBareDecode t))
              [?kb ''null'', ?kb ''integer'', ?kb ''double'', ?kb ''bool'', ?kb ''array'', ?ob]"
  proof
    assume nhu: "\<not> ?hu"
    note kbare = isBareDecode_kindBranch [OF nhu, of u ?byKind]
    have "?ob = None \<or> (\<exists>t. ?ob = Some t \<and> isBareDecode t)"
      using kbare [of "''class''"] kbare [of "''map''"] by (cases "?kb ''class'' \<noteq> None") simp_all
    with kbare [of "''null''"] kbare [of "''integer''"] kbare [of "''double''"]
      kbare [of "''bool''"] kbare [of "''array''"]
    show "list_all (\<lambda>branch. branch = None \<or> (\<exists>t. branch = Some t \<and> isBareDecode t))
              [?kb ''null'', ?kb ''integer'', ?kb ''double'', ?kb ''bool'', ?kb ''array'', ?ob]"
      by simp
  qed
  have bare_str: "\<not> ?hu \<and> length (stringTypeMembers env u) \<le> 1 \<longrightarrow>
            trString = None \<or> (\<exists>t. trString = Some t \<and> isBareDecode t)"
  proof
    assume a: "\<not> ?hu \<and> length (stringTypeMembers env u) \<le> 1"
    then have nhu: "\<not> ?hu" and le: "length (stringTypeMembers env u) \<le> 1" by simp_all
    from str_small [OF le] show "trString = None \<or> (\<exists>t. trString = Some t \<and> isBareDecode t)"
    proof
      assume "trString = None"
      then show ?thesis ..
    next
      assume "\<exists>t\<in>set (stringTypeMembers env u). trString = ?kb (kind t) \<and> ?kb (kind t) \<noteq> None"
      then obtain t where "t \<in> set (stringTypeMembers env u)" and t: "trString = ?kb (kind t)"
        by blast
      from isBareDecode_kindBranch [OF nhu, of u ?byKind "kind t"] t show ?thesis by simp
    qed
  qed
  have choice_str: "\<not> ?hu \<and> 1 < length (stringTypeMembers env u) \<longrightarrow>
            (\<exists>stringType alts.
               trString = Some (DecodingTransformer stringType
                                  (Some (ChoiceTransformer stringType alts))) \<and>
               length alts = length (stringTypeMembers env u) \<and>
               \<not> list_ex containsUnionInstantiation alts)"
  proof
    assume a: "\<not> ?hu \<and> 1 < length (stringTypeMembers env u)"
    from str_many [of] a obtain stringType alts where
      st: "trString = Some (DecodingTransformer stringType (Some (ChoiceTransformer stringType alts)))"
      and la: "list_all2 (isAlternativeFor ?byKind ?hu stringType) (stringTypeMembers env u) alts"
      by blast
    from c_str a st have "\<not> list_ex containsUnionInstantiation alts" by auto
    with st la show "\<exists>stringType alts.
               trString = Some (DecodingTransformer stringType
                                  (Some (ChoiceTransformer stringType alts))) \<and>
               length alts = length (stringTypeMembers env u) \<and>
               \<not> list_ex containsUnionInstantiation alts"
      by (auto simp: list_all2_lengthD)
  qed
  from rt only_if "if" bare bare_str choice_str show ?thesis
    unfolding Let_def by blast
qed

text \<open>
  The date and the time that collapse to one string; an integer and a double; an integer
  and an integer-as-string that collapse to the integer.
\<close>

theorem replaceUnion_union_instantiation_witness:
  "reconstitutedMemberSet mappedCollaborators
     (UnionType 10 [Description ''u'']
        [PrimitiveType 11 ''date'' [], PrimitiveType 12 ''time'' []]) [] = [50]
   \<and> stringTypeMembers mappedCollaborators
         (UnionType 10 [Description ''u'']
            [PrimitiveType 11 ''date'' [], PrimitiveType 12 ''time'' []])
       = [PrimitiveType 11 ''date'' [], PrimitiveType 12 ''time'' []]
   \<and> replaceUnion mappedCollaborators
         (UnionType 10 [Description ''u'']
            [PrimitiveType 11 ''date'' [], PrimitiveType 12 ''time'' []]) [] 7 False
       \<noteq> Inl DefinedValueExpected
   \<and> \<not> list_ex containsUnionInstantiation
           [ParseStringTransformer 1003 None, ParseStringTransformer 1003 None]
   \<and> reconstitutedMemberSet exampleCollaborators
         (UnionType 10 [Description ''u'']
            [PrimitiveType 11 ''integer'' [], PrimitiveType 12 ''double'' []]) [] = [11, 12]
   \<and> isDispatched exampleCollaborators (PrimitiveType 11 ''integer'' [])
   \<and> containsUnionInstantiation
         (DecodingChoiceTransformer 1003 None
            (Some (DecodingTransformer 11 (Some (UnionInstantiationTransformer 11))))
            (Some (DecodingTransformer 12 (Some (UnionInstantiationTransformer 12))))
            None None None None)
   \<and> reconstitutedMemberSet exampleCollaborators
         (UnionType 10 [Description ''u'']
            [PrimitiveType 11 ''integer'' [], PrimitiveType 12 ''integer-string'' []]) [] = [11]
   \<and> \<not> containsUnionInstantiation
         (DecodingChoiceTransformer 1003 None
            (Some (DecodingTransformer 11 None)) None None
            (Some (DecodingTransformer 11 None)) None None)"
proof -
  let ?ua = "UnionType 10 [Description ''u'']
        [PrimitiveType 11 ''date'' [], PrimitiveType 12 ''time'' []]"
  let ?ub = "UnionType 10 [Description ''u'']
            [PrimitiveType 11 ''integer'' [], PrimitiveType 12 ''double'' []]"
  let ?uc = "UnionType 10 [Description ''u'']
            [PrimitiveType 11 ''integer'' [], PrimitiveType 12 ''integer-string'' []]"
  have "\<exists>b. replaceUnion mappedCollaborators ?ua [] 7 False = Inr (7, b)"
    by (simp add: run_defs)
  then obtain ba where ra: "replaceUnion mappedCollaborators ?ua [] 7 False = Inr (7, ba)" ..
  have "\<exists>b. replaceUnion exampleCollaborators ?ub [] 7 False = Inr (7, b)"
    by (simp add: run_defs)
  then obtain bb where rb: "replaceUnion exampleCollaborators ?ub [] 7 False = Inr (7, bb)" ..
  have "\<exists>b. replaceUnion exampleCollaborators ?uc [] 7 False = Inr (7, b)"
    by (simp add: run_defs)
  then obtain bc where rc: "replaceUnion exampleCollaborators ?uc [] 7 False = Inr (7, bc)" ..
  have sa: "reconstitutedMemberSet mappedCollaborators ?ua [] = [50]"
    by (simp add: local_defs run_defs)
  have sb: "reconstitutedMemberSet exampleCollaborators ?ub [] = [11, 12]"
    by (simp add: local_defs run_defs)
  have sc: "reconstitutedMemberSet exampleCollaborators ?uc [] = [11]"
    by (simp add: local_defs run_defs)
  have ma: "stringTypeMembers mappedCollaborators ?ua
       = [PrimitiveType 11 ''date'' [], PrimitiveType 12 ''time'' []]"
    by (simp add: stringTypeMembers_def mappedCollaborators_def exampleCollaborators_def)
  have ta: "\<exists>target addl b. replaceUnion_transformer mappedCollaborators ?ua [] =
     Inr (target,
          DecodingChoiceTransformer 1004 None None None None
            (Some (DecodingTransformer 1003
                     (Some (ChoiceTransformer 1003
                              [ParseStringTransformer 1003 None,
                               ParseStringTransformer 1003 None]))))
            None None, addl, b)"
    by (simp add: run_defs)
  have tb: "\<exists>target addl b. replaceUnion_transformer exampleCollaborators ?ub [] =
     Inr (target,
          DecodingChoiceTransformer 1003 None
            (Some (DecodingTransformer 11 (Some (UnionInstantiationTransformer 11))))
            (Some (DecodingTransformer 12 (Some (UnionInstantiationTransformer 12))))
            None None None None, addl, b)"
    by (simp add: run_defs)
  have tc: "\<exists>target addl b. replaceUnion_transformer exampleCollaborators ?uc [] =
     Inr (target,
          DecodingChoiceTransformer 1003 None
            (Some (DecodingTransformer 11 None)) None None
            (Some (DecodingTransformer 11 None)) None None, addl, b)"
    by (simp add: run_defs)
  have db: "isDispatched exampleCollaborators (PrimitiveType 11 ''integer'' [])"
    by (simp add: isDispatched_def)
  from replaceUnion_union_instantiation [OF ra] ta
  have ca: "\<not> list_ex containsUnionInstantiation
           [ParseStringTransformer 1003 None, ParseStringTransformer 1003 None]"
    unfolding sa ma Let_def by force
  from replaceUnion_union_instantiation [OF rb] tb db
  have cb: "containsUnionInstantiation
         (DecodingChoiceTransformer 1003 None
            (Some (DecodingTransformer 11 (Some (UnionInstantiationTransformer 11))))
            (Some (DecodingTransformer 12 (Some (UnionInstantiationTransformer 12))))
            None None None None)"
    unfolding sb Let_def by force
  from replaceUnion_union_instantiation [OF rc] tc
  have cc: "\<not> containsUnionInstantiation
         (DecodingChoiceTransformer 1003 None
            (Some (DecodingTransformer 11 None)) None None
            (Some (DecodingTransformer 11 None)) None None)"
    unfolding sc Let_def by force
  from ra have "replaceUnion mappedCollaborators ?ua [] 7 False \<noteq> Inl DefinedValueExpected"
    by simp
  with sa ma ca sb db cb sc cc show ?thesis by blast
qed

end
